theory Spec2Isabelle
  imports Complex_Main
begin

section \<open>Wind loading on signage: the three calculation engines\<close>

text \<open>
  The theory embeds \<open>wind_calculator.py\<close> (wall-mounted engine),
  \<open>post_mounted_calculator.py\<close> (post-mounted engine, a subclass of the wall-mounted one)
  and \<open>projecting_sign_calculator.py\<close> (projecting-sign engine).

  Conventions of the embedding:
  \<^item> Python and numpy floats are modelled as \<^typ>\<open>real\<close>: \<open>np.log\<close> is \<^term>\<open>ln\<close>,
    \<open>x ** 0.2\<close> is \<^term>\<open>x powr 0.2\<close>; rounding error is not modelled. Every \<open>np.log\<close> of
    the source is applied to a positive argument (each call is guarded by the branch it sits
    in), where \<^term>\<open>ln\<close> and \<open>np.log\<close> agree.
  \<^item> A division of Python floats by zero raises \<open>ZeroDivisionError\<close>; it is a value of
    the error type. Where an operand is a numpy float the source does not raise but yields
    \<open>inf\<close> or \<open>nan\<close>; the reals have no such values and the model stops with
    \<open>NonFinite\<close> there.
  \<^item> The instance attribute \<open>self.warnings\<close> is the state: every method that appends to it
    takes the state and returns the new one. The text of a warning is a constructor; a number
    that the source formats into the message is the constructor's argument.
  \<^item> Keys that the source reads with \<open>inputs[...]\<close> are plain record fields, keys read with
    \<open>inputs.get(...)\<close> or tested with \<open>in\<close> are optional fields.
\<close>

subsection \<open>Errors, warnings and the engine state\<close>

datatype py_error = ZeroDivisionError | KeyError string | NonFinite

datatype warning =
    NonDirectional
      \<comment> \<open>"Non-directional approach used (c_dir = 1.0, conservative)"\<close>
  | OrographyIgnored
      \<comment> \<open>"Orography not considered (c_o = 1.0). Site must not be on/near hills, ..."\<close>
  | NoPostcode
      \<comment> \<open>"No postcode provided, using default v_map = 22.0 m/s"\<close>
  | AreaNotInDatabase string
      \<comment> \<open>"Postcode area '{area}' not in database, using default v_map = 22.0 m/s"\<close>
  | HdOver5Wall real
      \<comment> \<open>"h/d = {h_over_d:.2f} > 5. Using c_f for h/d=5 (conservative)."\<close>
  | HdOver5Freestanding real
      \<comment> \<open>"h/d = {h_over_d:.2f} > 5. Using conservative c_f."\<close>
  | PostDiameterMissing
      \<comment> \<open>"Post diameter not specified - post wind force neglected"\<close>
  | SingleBracket
      \<comment> \<open>"Single bracket: no moment couple resistance"\<close>

record calc_state =
  warnings :: "warning list"

definition append_warning :: "calc_state \<Rightarrow> warning \<Rightarrow> calc_state" where
  "append_warning self w = self\<lparr>warnings := warnings self @ [w]\<rparr>"

definition py_div :: "real \<Rightarrow> real \<Rightarrow> py_error + real" where
  "py_div a b = (if b = 0 then Inl ZeroDivisionError else Inr (a / b))"

subsection \<open>Wall-mounted engine: the stages of \<open>WindLoadCalculator\<close>\<close>

text \<open>\<open>_parse_distance\<close>: a number is returned as it is; a string containing \<open>+\<close> is 100;
  any other string goes through Python's built-in \<open>float\<close>, which is not code of this
  repository and is the parameter \<open>pyfloat\<close> (\<open>None\<close> where it raises \<open>ValueError\<close>);
  any other value is 100.\<close>

datatype dist_value = DNum real | DStr string | DOther

definition parse_distance :: "(string \<Rightarrow> real option) \<Rightarrow> dist_value \<Rightarrow> real" where
  "parse_distance pyfloat d =
     (case d of
        DNum x \<Rightarrow> x
      | DStr s \<Rightarrow>
          (if CHR ''+'' \<in> set s then 100
           else (case pyfloat s of Some x \<Rightarrow> x | None \<Rightarrow> 100))
      | DOther \<Rightarrow> 100)"

text \<open>\<open>lookup_wind_speed\<close>, on ASCII strings.\<close>

definition py_isspace :: "char \<Rightarrow> bool" where
  "py_isspace c = (let n = of_char c :: nat in (9 \<le> n \<and> n \<le> 13) \<or> (28 \<le> n \<and> n \<le> 32))"

definition py_isalpha :: "char \<Rightarrow> bool" where
  "py_isalpha c =
     (let n = of_char c :: nat in (65 \<le> n \<and> n \<le> 90) \<or> (97 \<le> n \<and> n \<le> 122))"

definition py_upper_char :: "char \<Rightarrow> char" where
  "py_upper_char c =
     (let n = of_char c :: nat in if 97 \<le> n \<and> n \<le> 122 then char_of (n - 32) else c)"

definition py_upper :: "string \<Rightarrow> string" where
  "py_upper s = map py_upper_char s"

definition py_strip :: "string \<Rightarrow> string" where
  "py_strip s = rev (dropWhile py_isspace (rev (dropWhile py_isspace s)))"

definition wind_speed_map :: "(string \<times> real) list" where
  "wind_speed_map =
    [(''AB'', 24.0), (''DD'', 24.0), (''DG'', 23.5), (''EH'', 24.0), (''FK'', 23.5),
     (''G'', 23.5), (''HS'', 26.0), (''IV'', 25.0), (''KA'', 23.5), (''KW'', 26.0),
     (''KY'', 24.0), (''ML'', 23.5), (''PA'', 24.0), (''PH'', 24.5), (''TD'', 23.5),
     (''ZE'', 27.0),
     (''CA'', 23.0), (''DH'', 22.5), (''DL'', 22.5), (''NE'', 23.0), (''SR'', 22.5),
     (''TS'', 22.5),
     (''CF'', 23.0), (''LL'', 23.5), (''SA'', 23.5), (''SY'', 22.5), (''LD'', 22.5),
     (''NP'', 22.5),
     (''EX'', 22.5), (''PL'', 23.5), (''TQ'', 22.5), (''TR'', 24.0),
     (''BN'', 22.5), (''CT'', 23.0), (''TN'', 22.0), (''ME'', 22.5), (''RH'', 22.0),
     (''E'', 22.0), (''EC'', 22.0), (''N'', 22.0), (''NW'', 22.0), (''SE'', 22.0),
     (''SW'', 22.0), (''W'', 22.0), (''WC'', 22.0),
     (''B'', 21.5), (''CV'', 21.5), (''DE'', 21.5), (''LE'', 21.5), (''NG'', 21.5),
     (''NN'', 21.5), (''WS'', 21.5), (''WV'', 21.5)]"

definition lookup_wind_speed :: "calc_state \<Rightarrow> string \<Rightarrow> real \<times> calc_state" where
  "lookup_wind_speed self postcode =
     (if postcode = [] then (22.0, append_warning self NoPostcode)
      else
        (let postcode_upper = py_strip (py_upper postcode);
             area = filter py_isalpha (take 2 postcode_upper)
         in case map_of wind_speed_map area of
              Some v \<Rightarrow> (v, self)
            | None \<Rightarrow> (22.0, append_warning self (AreaNotInDatabase area))))"

definition calculate_altitude_factor :: "real \<Rightarrow> real \<Rightarrow> real" where
  "calculate_altitude_factor altitude height =
     (let z_s = 0.6 * height
      in if z_s \<ge> 10 then 1 + 0.001 * altitude * (10 / z_s) powr 0.2
         else 1 + 0.001 * altitude)"

definition calculate_exposure_factor :: "real \<Rightarrow> real \<Rightarrow> real \<Rightarrow> string \<Rightarrow> real \<times> string" where
  "calculate_exposure_factor height displacement distance_to_shore terrain_type =
     (let z_eff = max (height - displacement) 2.0;
          zone = (if terrain_type = ''sea'' \<or> distance_to_shore \<le> 0.1 then ''A''
                  else if terrain_type = ''town'' then ''C''
                  else ''B'');
          c_e = (if zone = ''A'' then
                   (if z_eff \<le> 10 then 2.5 else 2.5 + 0.20 * ln (z_eff / 10))
                 else if zone = ''C'' then
                   (if z_eff \<le> 10 then 2.5 else 2.5 + 0.28 * ln (z_eff / 10))
                 else
                   (if z_eff \<le> 10 then 2.1 else 2.1 + 0.22 * ln (z_eff / 10)));
          c_e = (if zone = ''B'' \<and> distance_to_shore < 100 then
                   (let c_e_A = (if z_eff \<le> 10 then 2.5 else 2.5 + 0.20 * ln (z_eff / 10));
                        c_e_B = (if z_eff \<le> 10 then 2.1 else 2.1 + 0.22 * ln (z_eff / 10));
                        factor = min (distance_to_shore / 100) 1.0
                    in c_e_A + factor * (c_e_B - c_e_A))
                 else c_e)
      in (c_e, zone))"

definition calculate_town_correction :: "real \<Rightarrow> real \<Rightarrow> real" where
  "calculate_town_correction distance_into_town height =
     (if distance_into_town \<le> 0 then 1.0
      else if distance_into_town \<ge> 4 then 1.08
      else 1.0 + 0.02 * distance_into_town)"

definition calculate_peak_velocity_pressure ::
  "real \<Rightarrow> real \<Rightarrow> real \<Rightarrow> real \<Rightarrow> real \<Rightarrow> real" where
  "calculate_peak_velocity_pressure v_map c_alt c_dir c_e c_e_T =
     (let velocity = v_map * c_alt * c_dir
      in 0.613 * (velocity ^ 2) * c_e * c_e_T)"

text \<open>\<open>calculate_size_factor\<close>: the three zone branches of the source differ only in the
  two end values of the curve at \<open>b + h = 300\<close>; \<open>size_factor_branch\<close> is one such branch.\<close>

definition size_factor_branch :: "real \<Rightarrow> real \<Rightarrow> real \<Rightarrow> real \<Rightarrow> real" where
  "size_factor_branch lo hi b_plus_h z_eff =
     (if b_plus_h \<le> 5 then 1.0
      else if b_plus_h \<ge> 300 then
        (if z_eff \<le> 6 then lo
         else if z_eff \<ge> 200 then hi
         else lo + (hi - lo) * ln (z_eff / 6) / ln (200 / 6))
      else
        (let c_s_5 = 1.0;
             c_s_300 = (if z_eff \<le> 6 then lo
                        else lo + (hi - lo) * ln (z_eff / 6) / ln (200 / 6))
         in c_s_5 + (c_s_300 - c_s_5) * ln (b_plus_h / 5) / ln (300 / 5)))"

definition calculate_size_factor :: "real \<Rightarrow> real \<Rightarrow> real \<Rightarrow> string \<Rightarrow> real" where
  "calculate_size_factor width height z_eff zone =
     (let b_plus_h = width + height
      in if zone = ''A'' then size_factor_branch 0.81 0.88 b_plus_h z_eff
         else if zone = ''C'' then size_factor_branch 0.75 0.85 b_plus_h z_eff
         else size_factor_branch 0.78 0.87 b_plus_h z_eff)"

text \<open>\<open>calculate_dynamic_factor\<close>: the table for damping 0.08, its keys in ascending order
  as \<open>sorted(table_0_08.keys())\<close> gives them; the \<open>for\<close> loop over neighbouring keys is
  \<open>interpolate_table\<close>, which returns \<open>None\<close> when the loop ends without a \<open>return\<close>.\<close>

definition table_0_08 :: "(real \<times> real) list" where
  "table_0_08 = [(0.25, 1.02), (0.5, 1.03), (1.0, 1.06), (2.0, 1.10), (4.0, 1.17), (10.0, 1.24)]"

fun interpolate_table :: "(real \<times> real) list \<Rightarrow> real \<Rightarrow> real option" where
  "interpolate_table ((x0, y0) # (x1, y1) # rest) x =
     (if x0 \<le> x \<and> x \<le> x1 then Some (y0 + (y1 - y0) * (x - x0) / (x1 - x0))
      else interpolate_table ((x1, y1) # rest) x)"
| "interpolate_table _ x = None"

definition calculate_dynamic_factor :: "real \<Rightarrow> real \<Rightarrow> py_error + real" where
  "calculate_dynamic_factor height width =
     (if height \<le> 15 then Inr 1.0
      else
        (case py_div height width of
           Inl e \<Rightarrow> Inl e
         | Inr h_over_b \<Rightarrow>
             (if h_over_b \<le> fst (hd table_0_08) then Inr (snd (hd table_0_08))
              else if h_over_b \<ge> fst (last table_0_08) then Inr (snd (last table_0_08))
              else (case interpolate_table table_0_08 h_over_b of
                      Some c_d \<Rightarrow> Inr c_d
                    | None \<Rightarrow> Inr 1.1))))"

definition calculate_force_coefficient ::
  "calc_state \<Rightarrow> real \<Rightarrow> real \<Rightarrow> (py_error + real) \<times> calc_state" where
  "calculate_force_coefficient self height depth =
     (case py_div height depth of
        Inl e \<Rightarrow> (Inl e, self)
      | Inr h_over_d0 \<Rightarrow>
          (let self = (if h_over_d0 > 5 then append_warning self (HdOver5Wall h_over_d0)
                       else self);
               h_over_d = (if h_over_d0 > 5 then 5.0 else h_over_d0);
               c_f = (if 0.25 \<le> h_over_d \<and> h_over_d \<le> 1 then 0.935 + 0.1839 * ln h_over_d
                      else if 1 < h_over_d \<and> h_over_d \<le> 5 then
                        (0.8125 + 0.0375 * h_over_d) * (1.1 + 0.1243 * ln h_over_d)
                      else if h_over_d < 0.25 then 0.68
                      else 1.0)
           in (Inr c_f, self)))"

definition calculate_wind_force :: "real \<Rightarrow> real \<Rightarrow> real \<Rightarrow> real \<Rightarrow> real \<Rightarrow> real" where
  "calculate_wind_force q_p c_s c_d c_f area = q_p * c_s * c_d * c_f * area"

text \<open>\<open>assess_adequacy\<close> reads \<open>force_kN\<close> and \<open>q_p\<close> of the results and \<open>sign_width\<close>,
  \<open>sign_height\<close> and \<open>building_height\<close> of the inputs; these five numbers are its
  arguments. A check keeps its name, its status, the number that the source formats into
  \<open>value\<close> and the category printed beside it; the texts \<open>limit\<close> and \<open>message\<close>, which are
  fixed by name, status and category, are left out.\<close>

record check =
  ck_name :: string
  ck_status :: string
  ck_value :: real
  ck_category :: string

record assessment =
  as_checks :: "check list"
  as_overall_status :: string
  as_recommendations :: "string list"
  as_summary :: string

definition mk_check :: "string \<Rightarrow> string \<Rightarrow> real \<Rightarrow> string \<Rightarrow> check" where
  "mk_check n s v c = \<lparr>ck_name = n, ck_status = s, ck_value = v, ck_category = c\<rparr>"

definition assess_adequacy :: "real \<Rightarrow> real \<Rightarrow> real \<Rightarrow> real \<Rightarrow> real \<Rightarrow> assessment" where
  "assess_adequacy wind_force_kN peak_pressure_Pa sign_width sign_height height =
     (let sign_area = sign_width * sign_height;
          \<comment> \<open>Check 1: peak pressure\<close>
          (checks, overall, recs) =
            (if peak_pressure_Pa \<le> 1200 then
               ([mk_check ''Peak Pressure'' ''PASS'' peak_pressure_Pa []], ''PASS'', [])
             else if peak_pressure_Pa \<le> 1500 then
               ([mk_check ''Peak Pressure'' ''CAUTION'' peak_pressure_Pa []], ''CAUTION'',
                [''Verify sign panel material specification can handle this pressure''])
             else
               ([mk_check ''Peak Pressure'' ''FAIL'' peak_pressure_Pa []], ''FAIL'',
                [''High-specification panels or structural backing required'']));
          \<comment> \<open>Check 2: wind force per square metre\<close>
          force_per_sqm = (if sign_area > 0 then wind_force_kN / sign_area else 0);
          (checks, overall, recs) =
            (if force_per_sqm \<le> 1.5 then
               (checks @ [mk_check ''Wind Force Intensity'' ''PASS'' force_per_sqm []],
                overall, recs)
             else if force_per_sqm \<le> 2.0 then
               (checks @ [mk_check ''Wind Force Intensity'' ''CAUTION'' force_per_sqm []],
                (if overall = ''PASS'' then ''CAUTION'' else overall),
                recs @ [''Use heavy-duty framework with adequate bracing''])
             else
               (checks @ [mk_check ''Wind Force Intensity'' ''FAIL'' force_per_sqm []],
                ''FAIL'', recs @ [''Engineered steel framework required'']));
          \<comment> \<open>Check 3: sign size category\<close>
          (size_category, overall, recs) =
            (if sign_area \<le> 6 then (''Small'', overall, recs)
             else if sign_area \<le> 15 then (''Medium'', overall, recs)
             else if sign_area \<le> 30 then (''Large'', overall, recs)
             else (''Extra Large'', (if overall \<noteq> ''FAIL'' then ''CAUTION'' else overall),
                   recs @ [''Full structural engineering assessment required for this size'']));
          checks = checks @ [mk_check ''Sign Size Category'' ''INFO'' sign_area size_category];
          \<comment> \<open>Check 4: height category\<close>
          (height_category, overall, recs) =
            (if height \<le> 5 then (''Low Level'', overall, recs)
             else if height \<le> 10 then (''Medium Height'', overall, recs)
             else if height \<le> 20 then (''High Level'', overall, recs)
             else (''Very High'', (if overall \<noteq> ''FAIL'' then ''CAUTION'' else overall),
                   recs @ [''High-level work requires specialist contractors and equipment'']));
          checks = checks @ [mk_check ''Installation Height'' ''INFO'' height height_category];
          summary =
            (if overall = ''PASS'' then
               ''Wind loading is within typical signage construction limits. Standard professional installation should be adequate.''
             else if overall = ''CAUTION'' then
               ''Wind loading requires careful attention. Enhanced construction methods and/or professional structural assessment recommended.''
             else
               ''Wind loading exceeds typical signage construction limits. Full structural engineering design and certification required.'');
          recs = (if height > 3 \<or> sign_area > 10 then
                    recs @ [''Building control approval may be required - check with local authority'']
                  else recs);
          recs = recs @ [''This assessment is indicative only - professional structural verification required for installation'']
      in \<lparr>as_checks = checks, as_overall_status = overall,
          as_recommendations = recs, as_summary = summary\<rparr>)"

text \<open>The input and result dictionaries of \<open>WindLoadCalculator.calculate_wind_loading\<close>.
  The result keeps every computed entry; the entries that are fixed texts
  (\<open>stage_*_ref\<close>, \<open>methodology\<close>, \<open>reference\<close>, \<open>version\<close>) are left out.\<close>

record wall_inputs =
  in_sign_width :: real
  in_sign_height :: real
  in_sign_depth :: real
  in_building_height :: real
  in_site_altitude :: real
  in_v_map :: "real option"
  in_postcode :: "string option"
  in_distance_to_shore :: "dist_value option"
  in_terrain_type :: "string option"
  in_distance_into_town :: "real option"

record wall_results =
  r_v_map :: real
  r_c_alt :: real
  r_c_season :: real
  r_c_dir :: real
  r_h_dis :: real
  r_distance_to_shore :: real
  r_c_e :: real
  r_zone :: string
  r_c_e_T :: real
  r_size_factor_zone :: string
  r_q_p :: real
  r_c_o :: real
  r_c_s :: real
  r_z_eff :: real
  r_c_d :: real
  r_A_ref :: real
  r_c_f :: real
  r_force_N :: real
  r_force_kN :: real
  r_moment_kNm :: real
  r_lever_arm :: real
  r_design_wind_speed :: real
  r_warnings :: "warning list"
  r_assessment :: assessment

text \<open>\<open>WindLoadCalculator.calculate_wind_loading\<close>. The first statement rebinds
  \<open>self.warnings\<close> to a new empty list. \<open>inputs['v_map']\<close> is used when the key is present
  and its value is truthy (not \<open>None\<close>, not zero); \<open>results['warnings']\<close> is the list that
  \<open>self.warnings\<close> names when the method returns.\<close>

definition calculate_wind_loading ::
  "(string \<Rightarrow> real option) \<Rightarrow> calc_state \<Rightarrow> wall_inputs \<Rightarrow> (py_error + wall_results) \<times> calc_state"
where
  "calculate_wind_loading pyfloat self0 inputs =
     (let self = self0\<lparr>warnings := []\<rparr>;
          sign_width = in_sign_width inputs;
          sign_height = in_sign_height inputs;
          sign_depth = in_sign_depth inputs;
          building_height = in_building_height inputs;
          altitude = in_site_altitude inputs;
          distance_to_shore =
            parse_distance pyfloat
              (case in_distance_to_shore inputs of Some d \<Rightarrow> d | None \<Rightarrow> DNum 100);
          terrain_type = (case in_terrain_type inputs of Some t \<Rightarrow> t | None \<Rightarrow> ''country'');
          distance_into_town = (case in_distance_into_town inputs of Some d \<Rightarrow> d | None \<Rightarrow> 0);
          \<comment> \<open>Stage 1\<close>
          (v_map, self) =
            (case in_v_map inputs of
               Some v \<Rightarrow>
                 (if v \<noteq> 0 then (v, self)
                  else lookup_wind_speed self
                         (case in_postcode inputs of Some p \<Rightarrow> p | None \<Rightarrow> []))
             | None \<Rightarrow>
                 lookup_wind_speed self
                   (case in_postcode inputs of Some p \<Rightarrow> p | None \<Rightarrow> []));
          \<comment> \<open>Stage 2\<close>
          c_alt = calculate_altitude_factor altitude building_height;
          \<comment> \<open>Stage 3, 4\<close>
          c_season = 1.0;
          c_dir = 1.0;
          self = append_warning self NonDirectional;
          \<comment> \<open>Stage 5\<close>
          h_dis = 0.0;
          \<comment> \<open>Stage 7\<close>
          (c_e, zone) = calculate_exposure_factor building_height h_dis distance_to_shore terrain_type;
          \<comment> \<open>Stage 8-9\<close>
          c_e_T = (if terrain_type = ''town'' \<and> distance_into_town > 0
                   then calculate_town_correction distance_into_town building_height
                   else 1.0);
          \<comment> \<open>Stage 11\<close>
          q_p = calculate_peak_velocity_pressure v_map c_alt c_dir c_e c_e_T;
          \<comment> \<open>Stage 12-17\<close>
          c_o = 1.0;
          self = append_warning self OrographyIgnored;
          \<comment> \<open>Stage 18\<close>
          z_eff = building_height - h_dis;
          c_s = calculate_size_factor sign_width sign_height z_eff zone
      in \<comment> \<open>Stage 19\<close>
         case calculate_dynamic_factor building_height sign_width of
           Inl e \<Rightarrow> (Inl e, self)
         | Inr c_d \<Rightarrow>
             (let \<comment> \<open>Stage 20\<close>
                  A_ref = sign_width * sign_height
              in \<comment> \<open>Stage 21\<close>
                 case calculate_force_coefficient self sign_height sign_depth of
                   (Inl e, self) \<Rightarrow> (Inl e, self)
                 | (Inr c_f, self) \<Rightarrow>
                     (let \<comment> \<open>Stage 24\<close>
                          F_w = calculate_wind_force q_p c_s c_d c_f A_ref;
                          lever_arm = building_height - (sign_height / 2);
                          moment = F_w * lever_arm / 1000;
                          design_wind_speed = v_map * c_alt * c_dir;
                          assessment =
                            assess_adequacy (F_w / 1000) q_p sign_width sign_height building_height
                      in (Inr \<lparr>r_v_map = v_map, r_c_alt = c_alt, r_c_season = c_season,
                                r_c_dir = c_dir, r_h_dis = h_dis,
                                r_distance_to_shore = distance_to_shore,
                                r_c_e = c_e, r_zone = zone, r_c_e_T = c_e_T,
                                r_size_factor_zone = zone, r_q_p = q_p, r_c_o = c_o,
                                r_c_s = c_s, r_z_eff = z_eff, r_c_d = c_d, r_A_ref = A_ref,
                                r_c_f = c_f, r_force_N = F_w, r_force_kN = F_w / 1000,
                                r_moment_kNm = moment, r_lever_arm = lever_arm,
                                r_design_wind_speed = design_wind_speed,
                                r_warnings = warnings self,
                                r_assessment = assessment\<rparr>, self))))"

subsection \<open>Post-mounted engine: \<open>PostMountedCalculator\<close>\<close>

definition calculate_force_coefficient_freestanding ::
  "calc_state \<Rightarrow> real \<Rightarrow> real \<Rightarrow> real \<Rightarrow> real \<times> calc_state" where
  "calculate_force_coefficient_freestanding self height depth width =
     (let h_over_d = (if depth > 0 then height / depth else 999)
      in if 0.25 \<le> h_over_d \<and> h_over_d \<le> 1 then
           ((0.935 + 0.1839 * ln h_over_d) * 1.1, self)
         else if 1 < h_over_d \<and> h_over_d \<le> 5 then
           ((0.8125 + 0.0375 * h_over_d) * (1.1 + 0.1243 * ln h_over_d) * 1.1, self)
         else if h_over_d < 0.25 then (0.68 * 1.1, self)
         else (1.0 * 1.1, append_warning self (HdOver5Freestanding h_over_d)))"

record post_check =
  pc_I :: real
  pc_W_el :: real
  pc_sigma_Ed :: real
  pc_sigma_Rd :: real
  pc_eta_bending :: real
  pc_tau_Ed :: real
  pc_tau_Rd :: real
  pc_eta_shear :: real
  pc_bending_status :: string
  pc_shear_status :: string

text \<open>\<open>calculate_post_stresses\<close>. The hollow sections divide the second moment of area by
  half the outer size, a division of Python floats.\<close>

definition calculate_post_stresses ::
  "real \<Rightarrow> real \<Rightarrow> real \<Rightarrow> real \<Rightarrow> real \<Rightarrow> string \<Rightarrow> string \<Rightarrow> py_error + post_check" where
  "calculate_post_stresses M F size_out t f_y section_type material =
     (let is_solid = (material = ''timber'');
          section =
            (if section_type = ''square'' then
               (let b_out = size_out
                in if is_solid then Inr (b_out ^ 4 / 12, b_out ^ 3 / 6, b_out ^ 2)
                   else
                     (let b_in = b_out - 2 * t;
                          I = (b_out ^ 4 - b_in ^ 4) / 12
                      in case py_div I (b_out / 2) of
                           Inl e \<Rightarrow> Inl e
                         | Inr W_el \<Rightarrow> Inr (I, W_el, b_out ^ 2 - b_in ^ 2)))
             else
               (let D_out = size_out
                in if is_solid then
                     Inr (pi * D_out ^ 4 / 64, pi * D_out ^ 3 / 32, pi * D_out ^ 2 / 4)
                   else
                     (let D_in = D_out - 2 * t;
                          I = pi * (D_out ^ 4 - D_in ^ 4) / 64
                      in case py_div I (D_out / 2) of
                           Inl e \<Rightarrow> Inl e
                         | Inr W_el \<Rightarrow> Inr (I, W_el, pi * (D_out ^ 2 - D_in ^ 2) / 4))))
      in case section of
           Inl e \<Rightarrow> Inl e
         | Inr (I, W_el, A) \<Rightarrow>
             (let M_Nmm = M * 1000000;
                  sigma_Ed = (if W_el > 0 then M_Nmm / W_el else 999999);
                  (sigma_Rd, tau_Rd) =
                    (if material = ''steel'' then
                       (let gamma_M0 = 1.0 in (f_y / gamma_M0, (f_y / sqrt 3) / gamma_M0))
                     else if material = ''aluminium'' then
                       (let gamma_M1 = 1.1 in (f_y / gamma_M1, (f_y / sqrt 3) / gamma_M1))
                     else
                       (let gamma_M = 1.3; k_mod = 0.9; f_v_k = 4.0
                        in ((f_y * k_mod) / gamma_M, (f_v_k * k_mod) / gamma_M)));
                  eta_bending = (if sigma_Rd > 0 then sigma_Ed / sigma_Rd else 999);
                  tau_Ed = (if A > 0 then (F * 1000) / A else 999999);
                  eta_shear = (if tau_Rd > 0 then tau_Ed / tau_Rd else 999)
              in Inr \<lparr>pc_I = I, pc_W_el = W_el, pc_sigma_Ed = sigma_Ed, pc_sigma_Rd = sigma_Rd,
                      pc_eta_bending = eta_bending, pc_tau_Ed = tau_Ed, pc_tau_Rd = tau_Rd,
                      pc_eta_shear = eta_shear,
                      pc_bending_status = (if eta_bending \<le> 1.0 then ''PASS'' else ''FAIL''),
                      pc_shear_status = (if eta_shear \<le> 1.0 then ''PASS'' else ''FAIL'')\<rparr>))"

record foundation_check =
  fc_embedment :: real
  fc_required_width :: real
  fc_status :: string
  fc_message :: string

text \<open>\<open>calculate_foundation_requirements\<close>; the fixed text under \<open>warning\<close> is left out.
  \<open>np.sqrt\<close> of a negative moment is \<open>nan\<close>.\<close>

definition calculate_foundation_requirements ::
  "real \<Rightarrow> real \<Rightarrow> real \<Rightarrow> string \<Rightarrow> py_error + foundation_check" where
  "calculate_foundation_requirements M F embedment foundation_type =
     (if foundation_type = ''concrete'' then
        (if M / 50 < 0 then Inl NonFinite
         else
           (let required_width = sqrt (M / 50);
                (status, message) =
                  (if embedment < 1.0 then
                     (''INADEQUATE'', ''Embedment depth too shallow - minimum 1.0m recommended'')
                   else if embedment < 1.5 then
                     (''MARGINAL'', ''Embedment adequate but consider deeper foundation'')
                   else (''ADEQUATE'', ''Embedment depth appears adequate''))
            in Inr \<lparr>fc_embedment = embedment, fc_required_width = required_width,
                    fc_status = status, fc_message = message\<rparr>))
      else
        Inr \<lparr>fc_embedment = embedment, fc_required_width = 0,
             fc_status = ''REQUIRES DESIGN'',
             fc_message = ''Base plate and anchor bolt design required''\<rparr>)"

record post_inputs =
  pin_sign_width :: real
  pin_sign_height :: real
  pin_sign_depth :: real
  pin_sign_base_height :: real
  pin_post_height :: "real option"
  pin_site_altitude :: real
  pin_v_map :: real
  pin_distance_to_shore :: dist_value
  pin_terrain_type :: string
  pin_distance_into_town :: "real option"
  pin_post_diameter :: "real option"
  pin_post_thickness :: "real option"
  pin_post_section_type :: "string option"
  pin_post_material :: "string option"
  pin_post_steel_grade :: "real option"
  pin_foundation_type :: "string option"
  pin_embedment_depth :: "real option"

text \<open>The result dictionary of the post-mounted engine: \<open>pr_base\<close> holds the entries of
  \<open>base_results\<close> after the entries written over them (\<open>q_p\<close>, \<open>c_f\<close>, \<open>A_ref\<close>,
  \<open>force_N\<close>, \<open>force_kN\<close>, \<open>moment_kNm\<close>, \<open>warnings\<close>); the fixed texts \<open>sign_type\<close>,
  \<open>mounting_type\<close> and \<open>c_f_ref\<close> are left out.\<close>

record post_results =
  pr_base :: wall_results
  pr_z_centroid :: real
  pr_F_w_sign :: real
  pr_F_w_post :: real
  pr_M_sign :: real
  pr_M_post :: real
  pr_M_total :: real
  pr_post_check :: "post_check option"
  pr_foundation_check :: "foundation_check option"
  pr_overall_pass :: bool
  pr_overall_status :: string

definition wind_inputs_of :: "post_inputs \<Rightarrow> real \<Rightarrow> wall_inputs" where
  "wind_inputs_of inputs height =
     \<lparr>in_sign_width = pin_sign_width inputs,
      in_sign_height = pin_sign_height inputs,
      in_sign_depth = pin_sign_depth inputs,
      in_building_height = height,
      in_site_altitude = pin_site_altitude inputs,
      in_v_map = Some (pin_v_map inputs),
      in_postcode = None,
      in_distance_to_shore = Some (pin_distance_to_shore inputs),
      in_terrain_type = Some (pin_terrain_type inputs),
      in_distance_into_town =
        Some (case pin_distance_into_town inputs of Some d \<Rightarrow> d | None \<Rightarrow> 0)\<rparr>"

text \<open>The wind force on the post, lines 106 to 129 of \<open>post_mounted_calculator.py\<close>: with a
  positive post size the parent's \<open>calculate_wind_loading\<close> runs a second time, on a copy
  of \<open>wind_inputs\<close> with \<open>building_height\<close> replaced by half the post height.\<close>

definition post_wind_force ::
  "(string \<Rightarrow> real option) \<Rightarrow> calc_state \<Rightarrow> post_inputs \<Rightarrow> real \<Rightarrow> (py_error + real) \<times> calc_state"
where
  "post_wind_force pyfloat self inputs post_height =
     (let post_size = (case pin_post_diameter inputs of Some d \<Rightarrow> d | None \<Rightarrow> 0) / 1000;
          post_section_type =
            (case pin_post_section_type inputs of Some t \<Rightarrow> t | None \<Rightarrow> ''circular'')
      in if post_size > 0 then
           (let c_f_post = (if post_section_type = ''square'' then 2.0 else 0.7);
                A_post = post_size * post_height;
                z_post_avg = post_height / 2;
                wind_inputs_post = wind_inputs_of inputs z_post_avg
            in case calculate_wind_loading pyfloat self wind_inputs_post of
                 (Inl e, self) \<Rightarrow> (Inl e, self)
               | (Inr post_results, self) \<Rightarrow>
                   (let q_p_post = r_q_p post_results
                    in (Inr (q_p_post * c_f_post * A_post / 1000), self)))
         else (Inr 0, append_warning self PostDiameterMissing))"

text \<open>\<open>PostMountedCalculator.calculate_wind_loading\<close>. \<open>super().calculate_wind_loading\<close> is
  the wall-mounted method run on the same instance, so on the same \<open>self.warnings\<close>.\<close>

definition post_calculate_wind_loading ::
  "(string \<Rightarrow> real option) \<Rightarrow> calc_state \<Rightarrow> post_inputs \<Rightarrow> (py_error + post_results) \<times> calc_state"
where
  "post_calculate_wind_loading pyfloat self0 inputs =
     (let self = self0\<lparr>warnings := []\<rparr>;
          b = pin_sign_width inputs;
          h = pin_sign_height inputs;
          d = pin_sign_depth inputs;
          z_base = pin_sign_base_height inputs;
          z_top = z_base + h;
          z_centroid = z_base + h / 2;
          wind_inputs = wind_inputs_of inputs z_centroid
      in case calculate_wind_loading pyfloat self wind_inputs of
           (Inl e, self) \<Rightarrow> (Inl e, self)
         | (Inr base_results, self) \<Rightarrow>
             (let q_p = r_q_p base_results;
                  c_s = r_c_s base_results;
                  c_d = r_c_d base_results;
                  (c_f, self) = calculate_force_coefficient_freestanding self h d b;
                  A_ref = b * h;
                  F_w_sign = q_p * c_s * c_d * c_f * A_ref / 1000;
                  post_height = (case pin_post_height inputs of Some p \<Rightarrow> p | None \<Rightarrow> z_top)
              in case post_wind_force pyfloat self inputs post_height of
                   (Inl e, self) \<Rightarrow> (Inl e, self)
                 | (Inr F_w_post, self) \<Rightarrow>
                     (let F_w_total = F_w_sign + F_w_post;
                          M_sign = F_w_sign * z_centroid;
                          M_post = (if F_w_post > 0 then F_w_post * (post_height / 2) else 0);
                          M_total = M_sign + M_post;
                          post_check =
                            (case (pin_post_diameter inputs, pin_post_thickness inputs) of
                               (Some dia, Some thk) \<Rightarrow>
                                 map_sum id Some
                                   (calculate_post_stresses M_total F_w_total dia thk
                                      (case pin_post_steel_grade inputs of
                                         Some g \<Rightarrow> g | None \<Rightarrow> 275)
                                      (case pin_post_section_type inputs of
                                         Some t \<Rightarrow> t | None \<Rightarrow> ''circular'')
                                      (case pin_post_material inputs of
                                         Some m \<Rightarrow> m | None \<Rightarrow> ''steel''))
                             | _ \<Rightarrow> Inr None)
                      in case post_check of
                           Inl e \<Rightarrow> (Inl e, self)
                         | Inr post_check \<Rightarrow>
                             (let foundation_check =
                                    (case pin_embedment_depth inputs of
                                       Some emb \<Rightarrow>
                                         map_sum id Some
                                           (calculate_foundation_requirements M_total F_w_total emb
                                              (case pin_foundation_type inputs of
                                                 Some f \<Rightarrow> f | None \<Rightarrow> ''concrete''))
                                     | None \<Rightarrow> Inr None)
                              in case foundation_check of
                                   Inl e \<Rightarrow> (Inl e, self)
                                 | Inr foundation_check \<Rightarrow>
                                     (let checks_pass = True;
                                          checks_pass =
                                            (case post_check of
                                               Some pc \<Rightarrow>
                                                 checks_pass \<and> pc_bending_status pc = ''PASS''
                                             | None \<Rightarrow> checks_pass);
                                          checks_pass =
                                            (case foundation_check of
                                               Some fc \<Rightarrow> checks_pass \<and> fc_status fc = ''ADEQUATE''
                                             | None \<Rightarrow> checks_pass)
                                      in (Inr \<lparr>pr_base =
                                                 base_results\<lparr>r_q_p := q_p, r_c_f := c_f,
                                                   r_A_ref := A_ref,
                                                   r_force_N := F_w_total * 1000,
                                                   r_force_kN := F_w_total,
                                                   r_moment_kNm := M_total,
                                                   r_warnings := warnings self\<rparr>,
                                               pr_z_centroid = z_centroid,
                                               pr_F_w_sign = F_w_sign, pr_F_w_post = F_w_post,
                                               pr_M_sign = M_sign, pr_M_post = M_post,
                                               pr_M_total = M_total,
                                               pr_post_check = post_check,
                                               pr_foundation_check = foundation_check,
                                               pr_overall_pass = checks_pass,
                                               pr_overall_status =
                                                 (if checks_pass then ''ADEQUATE''
                                                  else ''REQUIRES REVIEW'')\<rparr>, self))))))"

subsection \<open>Projecting-sign engine: \<open>ProjectingSignCalculator\<close>\<close>

text \<open>In this engine every wind quantity descends from \<open>np.log\<close> and is a numpy float:
  dividing one of them by zero gives \<open>inf\<close> or \<open>nan\<close> and the method goes on. The model
  stops with \<open>NonFinite\<close> at the first such value and does not follow the source further.\<close>

definition np_div :: "real \<Rightarrow> real \<Rightarrow> py_error + real" where
  "np_div a b = (if b = 0 then Inl NonFinite else Inr (a / b))"

definition AIR_DENSITY :: real where "AIR_DENSITY = 1.25"
definition STEEL_E_MODULUS :: real where "STEEL_E_MODULUS = 210000"
definition GAMMA_G_UNFAV :: real where "GAMMA_G_UNFAV = 1.35"
definition GAMMA_Q :: real where "GAMMA_Q = 1.5"

record terrain_params =
  tp_z_0 :: real
  tp_z_min :: real
  tp_k_r :: real
  tp_description :: string

definition TERRAIN_PARAMS :: "(string \<times> terrain_params) list" where
  "TERRAIN_PARAMS =
     [(''0'', \<lparr>tp_z_0 = 0.003, tp_z_min = 1, tp_k_r = 0.17,
               tp_description = ''Sea or coastal area''\<rparr>),
      (''II'', \<lparr>tp_z_0 = 0.05, tp_z_min = 2, tp_k_r = 0.19,
                tp_description = ''Low vegetation, isolated obstacles''\<rparr>),
      (''III'', \<lparr>tp_z_0 = 0.3, tp_z_min = 5, tp_k_r = 0.22,
                 tp_description = ''Suburban/industrial''\<rparr>),
      (''IV'', \<lparr>tp_z_0 = 1.0, tp_z_min = 10, tp_k_r = 0.24,
                tp_description = ''Urban centres''\<rparr>)]"

definition calculate_basic_wind_velocity :: "real \<Rightarrow> real \<Rightarrow> real \<Rightarrow> real" where
  "calculate_basic_wind_velocity v_b_0 c_dir c_season = v_b_0 * c_dir * c_season"

text \<open>\<open>z / z_0\<close> divides Python floats; \<open>np.log\<close> of a number that is not positive is
  \<open>-inf\<close> or \<open>nan\<close>.\<close>

definition calculate_roughness_factor :: "real \<Rightarrow> real \<Rightarrow> real \<Rightarrow> py_error + real" where
  "calculate_roughness_factor z z_0 k_r =
     (case py_div z z_0 of
        Inl e \<Rightarrow> Inl e
      | Inr q \<Rightarrow> if q \<le> 0 then Inl NonFinite else Inr (k_r * ln q))"

definition calculate_turbulence_intensity ::
  "real \<Rightarrow> real \<Rightarrow> real \<Rightarrow> real \<Rightarrow> py_error + real" where
  "calculate_turbulence_intensity z z_0 k_I c_0 =
     (case py_div z z_0 of
        Inl e \<Rightarrow> Inl e
      | Inr q \<Rightarrow> if q \<le> 0 then Inl NonFinite else np_div k_I (c_0 * ln q))"

definition calculate_peak_pressure :: "real \<Rightarrow> real \<Rightarrow> real" where
  "calculate_peak_pressure v_m I_v =
     (let q_p_Pa = 0.5 * AIR_DENSITY * v_m ^ 2 * (1 + 7 * I_v)
      in q_p_Pa / 1000)"

record bracket_forces =
  bf_V_per_bracket :: real
  bf_M_wall :: real
  bf_M_per_bracket :: real
  bf_N_vertical :: real
  bf_N_moment :: real
  bf_N_tension_max :: real

definition calculate_bracket_forces ::
  "calc_state \<Rightarrow> real \<Rightarrow> real \<Rightarrow> int \<Rightarrow> real \<Rightarrow> real \<Rightarrow> (py_error + bracket_forces) \<times> calc_state"
where
  "calculate_bracket_forces self F_w_Ed e n_brackets s G_Ed =
     (case np_div F_w_Ed (of_int n_brackets) of
        Inl err \<Rightarrow> (Inl err, self)
      | Inr V_per_bracket \<Rightarrow>
          (let M_wall = F_w_Ed * e;
               M_per_bracket = V_per_bracket * e
           in case py_div G_Ed (of_int n_brackets) of
                Inl err \<Rightarrow> (Inl err, self)
              | Inr N_vertical \<Rightarrow>
                  (case (if n_brackets \<ge> 2 then (np_div M_wall s, self)
                         else (Inr 0, append_warning self SingleBracket)) of
                     (Inl err, self) \<Rightarrow> (Inl err, self)
                   | (Inr N_moment, self) \<Rightarrow>
                       (Inr \<lparr>bf_V_per_bracket = V_per_bracket, bf_M_wall = M_wall,
                              bf_M_per_bracket = M_per_bracket, bf_N_vertical = N_vertical,
                              bf_N_moment = N_moment,
                              bf_N_tension_max = N_moment + N_vertical\<rparr>, self))))"

record anchor_check =
  ac_N_Ed :: real
  ac_V_Ed :: real
  ac_N_Rd :: real
  ac_V_Rd :: real
  ac_eta_tension :: real
  ac_eta_shear :: real
  ac_eta_combined :: real
  ac_tension_status :: string
  ac_shear_status :: string
  ac_combined_status :: string

definition calculate_anchor_utilization ::
  "real \<Rightarrow> real \<Rightarrow> real \<Rightarrow> int \<Rightarrow> real \<Rightarrow> real \<Rightarrow> real \<Rightarrow> real \<Rightarrow> py_error + anchor_check"
where
  "calculate_anchor_utilization V_per_bracket M_per_bracket N_vertical n_fix p_v N_Rk V_Rk gamma_M =
     (case np_div V_per_bracket (of_int n_fix) of
        Inl err \<Rightarrow> Inl err
      | Inr V_Ed \<Rightarrow>
     (case np_div M_per_bracket (p_v * (of_int n_fix / 2)) of
        Inl err \<Rightarrow> Inl err
      | Inr N_moment \<Rightarrow>
     (case py_div N_vertical (of_int n_fix) of
        Inl err \<Rightarrow> Inl err
      | Inr N_weight \<Rightarrow>
     (case py_div N_Rk gamma_M of
        Inl err \<Rightarrow> Inl err
      | Inr N_Rd \<Rightarrow>
     (case py_div V_Rk gamma_M of
        Inl err \<Rightarrow> Inl err
      | Inr V_Rd \<Rightarrow>
          (let N_Ed = N_moment + N_weight;
               eta_tension = (if N_Rd > 0 then N_Ed / N_Rd else 999);
               eta_shear = (if V_Rd > 0 then V_Ed / V_Rd else 999);
               eta_combined = eta_tension + eta_shear
           in Inr \<lparr>ac_N_Ed = N_Ed, ac_V_Ed = V_Ed, ac_N_Rd = N_Rd, ac_V_Rd = V_Rd,
                   ac_eta_tension = eta_tension, ac_eta_shear = eta_shear,
                   ac_eta_combined = eta_combined,
                   ac_tension_status = (if eta_tension \<le> 1.0 then ''PASS'' else ''FAIL''),
                   ac_shear_status = (if eta_shear \<le> 1.0 then ''PASS'' else ''FAIL''),
                   ac_combined_status =
                     (if eta_combined \<le> 1.0 then ''PASS'' else ''FAIL'')\<rparr>))))))"

record bracket_check =
  bc_I :: real
  bc_W_el :: real
  bc_M_Ed :: real
  bc_sigma_Ed :: real
  bc_sigma_Rd :: real
  bc_eta_bending :: real
  bc_tau_Ed :: real
  bc_tau_Rd :: real
  bc_eta_shear :: real
  bc_bending_status :: string
  bc_shear_status :: string

text \<open>\<open>calculate_bracket_stresses\<close>; the dictionary \<open>section\<close> is its three entries.\<close>

definition calculate_bracket_stresses ::
  "real \<Rightarrow> real \<Rightarrow> real \<Rightarrow> real \<Rightarrow> real \<Rightarrow> real \<Rightarrow> py_error + bracket_check" where
  "calculate_bracket_stresses V_per_bracket L b_out h_out t f_y =
     (let b_in = b_out - 2 * t;
          h_in = h_out - 2 * t;
          I = (b_out * h_out ^ 3 - b_in * h_in ^ 3) / 12
      in case py_div (2 * I) h_out of
           Inl err \<Rightarrow> Inl err
         | Inr W_el \<Rightarrow>
             (let M_Ed = V_per_bracket * L * 1000000;
                  sigma_Ed = (if W_el > 0 then M_Ed / W_el else 999999);
                  gamma_M0 = 1.0;
                  sigma_Rd = f_y / gamma_M0;
                  eta_bending = (if sigma_Rd > 0 then sigma_Ed / sigma_Rd else 999);
                  A_v = 2 * h_out * t;
                  V_Ed_N = V_per_bracket * 1000;
                  tau_Ed = (if A_v > 0 then V_Ed_N / A_v else 999999);
                  tau_Rd = (f_y / sqrt 3) / gamma_M0;
                  eta_shear = (if tau_Rd > 0 then tau_Ed / tau_Rd else 999)
              in Inr \<lparr>bc_I = I, bc_W_el = W_el, bc_M_Ed = M_Ed / 1000000,
                      bc_sigma_Ed = sigma_Ed, bc_sigma_Rd = sigma_Rd,
                      bc_eta_bending = eta_bending, bc_tau_Ed = tau_Ed, bc_tau_Rd = tau_Rd,
                      bc_eta_shear = eta_shear,
                      bc_bending_status = (if eta_bending \<le> 1.0 then ''PASS'' else ''FAIL''),
                      bc_shear_status = (if eta_shear \<le> 1.0 then ''PASS'' else ''FAIL'')\<rparr>))"

text \<open>\<open>calculate_deflection\<close>. The force is a numpy float, so the division by \<open>3 * E * I\<close>
  gives \<open>inf\<close> or \<open>nan\<close> when \<open>E = 0\<close> (the guard of the source tests \<open>I\<close> only); the engine
  always passes \<open>STEEL_E_MODULUS\<close> there.\<close>

record deflection_check =
  dc_delta :: real
  dc_delta_limit :: real
  dc_eta_deflection :: real
  dc_deflection_status :: string

definition calculate_deflection ::
  "real \<Rightarrow> int \<Rightarrow> real \<Rightarrow> real \<Rightarrow> real \<Rightarrow> py_error + deflection_check" where
  "calculate_deflection F_w_k n_brackets L E I =
     (case np_div F_w_k (of_int n_brackets) of
        Inl err \<Rightarrow> Inl err
      | Inr F_per_bracket \<Rightarrow>
          (let F_SLS = F_per_bracket * 1000;
               L_mm = L * 1000
           in case (if I > 0 then np_div (F_SLS * L_mm ^ 3) (3 * E * I) else Inr 999999) of
                Inl err \<Rightarrow> Inl err
              | Inr delta \<Rightarrow>
                  (let delta_limit = min (L_mm / 150) 20;
                       eta_deflection = (if delta_limit > 0 then delta / delta_limit else 999)
                   in Inr \<lparr>dc_delta = delta, dc_delta_limit = delta_limit,
                           dc_eta_deflection = eta_deflection,
                           dc_deflection_status =
                             (if eta_deflection \<le> 1.0 then ''PASS'' else ''FAIL'')\<rparr>)))"

record proj_inputs =
  jin_sign_width :: real
  jin_sign_height :: real
  jin_projection :: real
  jin_mounting_height :: real
  jin_terrain_category :: string
  jin_v_b_0 :: real
  jin_c_dir :: "real option"
  jin_c_season :: "real option"
  jin_sign_weight :: real
  jin_n_brackets :: int
  jin_bracket_spacing :: real
  jin_n_fixings_per_bracket :: int
  jin_fixing_pitch_vertical :: real
  jin_anchor_tension_capacity :: real
  jin_anchor_shear_capacity :: real
  jin_anchor_gamma_M :: real
  jin_bracket_width :: real
  jin_bracket_depth :: real
  jin_bracket_thickness :: real
  jin_bracket_steel_grade :: real

text \<open>The result dictionary of the projecting-sign engine, without its fixed texts
  (\<open>sign_type\<close>, the \<open>*_ref\<close> entries, \<open>methodology\<close>, \<open>version\<close>).\<close>

record proj_results =
  jr_sign_area :: real
  jr_projection :: real
  jr_mounting_height :: real
  jr_terrain :: string
  jr_terrain_description :: string
  jr_v_b :: real
  jr_z_eff :: real
  jr_c_r :: real
  jr_I_v :: real
  jr_v_m :: real
  jr_q_p :: real
  jr_c_f :: real
  jr_F_w_k :: real
  jr_F_w_Ed :: real
  jr_G_Ed :: real
  jr_bracket_forces :: bracket_forces
  jr_anchor_check :: anchor_check
  jr_bracket_check :: bracket_check
  jr_deflection_check :: deflection_check
  jr_overall_pass :: bool
  jr_overall_status :: string
  jr_warnings :: "warning list"

text \<open>\<open>ProjectingSignCalculator.calculate_wind_loading\<close>. \<open>TERRAIN_PARAMS[terrain]\<close> raises
  \<open>KeyError\<close> for a category that is not in the table.\<close>

definition proj_calculate_wind_loading ::
  "calc_state \<Rightarrow> proj_inputs \<Rightarrow> (py_error + proj_results) \<times> calc_state" where
  "proj_calculate_wind_loading self0 inputs =
     (let self = self0\<lparr>warnings := []\<rparr>;
          b = jin_sign_width inputs;
          h = jin_sign_height inputs;
          e = jin_projection inputs;
          z = jin_mounting_height inputs;
          terrain = jin_terrain_category inputs;
          v_b_0 = jin_v_b_0 inputs;
          c_dir = (case jin_c_dir inputs of Some c \<Rightarrow> c | None \<Rightarrow> 1.0);
          c_season = (case jin_c_season inputs of Some c \<Rightarrow> c | None \<Rightarrow> 1.0);
          v_b = calculate_basic_wind_velocity v_b_0 c_dir c_season
      in case map_of TERRAIN_PARAMS terrain of
           None \<Rightarrow> (Inl (KeyError terrain), self)
         | Some terrain_params \<Rightarrow>
     (let z_0 = tp_z_0 terrain_params;
          z_min = tp_z_min terrain_params;
          k_r = tp_k_r terrain_params;
          z_eff = max z z_min
      in case calculate_roughness_factor z_eff z_0 k_r of
           Inl err \<Rightarrow> (Inl err, self)
         | Inr c_r \<Rightarrow>
     (case calculate_turbulence_intensity z_eff z_0 1.0 1.0 of
           Inl err \<Rightarrow> (Inl err, self)
         | Inr I_v \<Rightarrow>
     (let v_m = c_r * v_b;
          q_p = calculate_peak_pressure v_m I_v;
          A = b * h;
          c_f = 2.0;
          F_w_k = c_f * q_p * A;
          G_k = jin_sign_weight inputs;
          G_Ed = GAMMA_G_UNFAV * G_k;
          F_w_Ed = GAMMA_Q * F_w_k;
          n_brackets = jin_n_brackets inputs;
          s = jin_bracket_spacing inputs
      in case calculate_bracket_forces self F_w_Ed e n_brackets s G_Ed of
           (Inl err, self) \<Rightarrow> (Inl err, self)
         | (Inr bracket_forces, self) \<Rightarrow>
     (case calculate_anchor_utilization
             (bf_V_per_bracket bracket_forces) (bf_M_per_bracket bracket_forces)
             (bf_N_vertical bracket_forces)
             (jin_n_fixings_per_bracket inputs) (jin_fixing_pitch_vertical inputs)
             (jin_anchor_tension_capacity inputs) (jin_anchor_shear_capacity inputs)
             (jin_anchor_gamma_M inputs) of
           Inl err \<Rightarrow> (Inl err, self)
         | Inr anchor_check \<Rightarrow>
     (case calculate_bracket_stresses (bf_V_per_bracket bracket_forces) e
             (jin_bracket_width inputs) (jin_bracket_depth inputs)
             (jin_bracket_thickness inputs) (jin_bracket_steel_grade inputs) of
           Inl err \<Rightarrow> (Inl err, self)
         | Inr bracket_check \<Rightarrow>
     (case calculate_deflection F_w_k n_brackets e STEEL_E_MODULUS (bc_I bracket_check) of
           Inl err \<Rightarrow> (Inl err, self)
         | Inr deflection_check \<Rightarrow>
     (let overall_pass =
            (ac_eta_combined anchor_check \<le> 1.0 \<and>
             bc_eta_bending bracket_check \<le> 1.0 \<and>
             bc_eta_shear bracket_check \<le> 1.0 \<and>
             dc_eta_deflection deflection_check \<le> 1.0)
      in (Inr \<lparr>jr_sign_area = A, jr_projection = e, jr_mounting_height = z,
                jr_terrain = terrain,
                jr_terrain_description = tp_description terrain_params,
                jr_v_b = v_b, jr_z_eff = z_eff, jr_c_r = c_r, jr_I_v = I_v, jr_v_m = v_m,
                jr_q_p = q_p, jr_c_f = c_f, jr_F_w_k = F_w_k, jr_F_w_Ed = F_w_Ed,
                jr_G_Ed = G_Ed, jr_bracket_forces = bracket_forces,
                jr_anchor_check = anchor_check, jr_bracket_check = bracket_check,
                jr_deflection_check = deflection_check,
                jr_overall_pass = overall_pass,
                jr_overall_status = (if overall_pass then ''ADEQUATE'' else ''INADEQUATE''),
                jr_warnings = warnings self\<rparr>, self)))))))))"

subsection \<open>The worked examples of the repository\<close>

text \<open>The Sheffield Bioincubator inputs of \<open>test_sheffield_bioincubator\<close>.\<close>

definition sheffield_inputs :: wall_inputs where
  "sheffield_inputs =
     \<lparr>in_sign_width = 20, in_sign_height = 27, in_sign_depth = 29,
      in_building_height = 27, in_site_altitude = 105,
      in_v_map = Some 22.1, in_postcode = None,
      in_distance_to_shore = Some (DNum 100),
      in_terrain_type = Some ''town'', in_distance_into_town = Some 2\<rparr>"

text \<open>The inputs of \<open>test_post_mounted\<close>, which are also those under \<open>__main__\<close> in
  \<open>post_mounted_calculator.py\<close>.\<close>

definition post_example_inputs :: post_inputs where
  "post_example_inputs =
     \<lparr>pin_sign_width = 3.0, pin_sign_height = 2.0, pin_sign_depth = 0.3,
      pin_sign_base_height = 2.5, pin_post_height = Some 4.5,
      pin_site_altitude = 50, pin_v_map = 22.5,
      pin_distance_to_shore = DNum 20, pin_terrain_type = ''country'',
      pin_distance_into_town = None,
      pin_post_diameter = Some 150, pin_post_thickness = Some 8,
      pin_post_section_type = None, pin_post_material = None,
      pin_post_steel_grade = Some 275,
      pin_foundation_type = Some ''concrete'', pin_embedment_depth = Some 1.5\<rparr>"

text \<open>The inputs of \<open>test_projecting_sign\<close>.\<close>

definition projecting_example_inputs :: proj_inputs where
  "projecting_example_inputs =
     \<lparr>jin_sign_width = 2.0, jin_sign_height = 1.5, jin_projection = 0.6,
      jin_mounting_height = 4.5, jin_terrain_category = ''III'', jin_v_b_0 = 22.5,
      jin_c_dir = None, jin_c_season = None, jin_sign_weight = 0.15,
      jin_n_brackets = 2, jin_bracket_spacing = 1.2,
      jin_n_fixings_per_bracket = 4, jin_fixing_pitch_vertical = 0.15,
      jin_anchor_tension_capacity = 12.0, jin_anchor_shear_capacity = 8.0,
      jin_anchor_gamma_M = 1.5,
      jin_bracket_width = 80, jin_bracket_depth = 60, jin_bracket_thickness = 5,
      jin_bracket_steel_grade = 275\<rparr>"

section \<open>Properties of the engines\<close>

subsection \<open>Auxiliary facts\<close>

lemma reset_warnings_eq: "(s::calc_state)\<lparr>warnings := []\<rparr> = \<lparr>warnings = []\<rparr>"
  by simp

lemma bind_InrE:
  assumes "(case x of Inl e \<Rightarrow> Inl e | Inr v \<Rightarrow> g v) = Inr c"
  obtains v where "x = Inr v" and "g v = Inr c"
  using assms by (cases x) auto

subsection \<open>Force coefficients\<close>

text \<open>Up to \<open>h/d = 5\<close> the free-standing coefficient is the wall-mounted one times 1.1.\<close>

lemma freestanding_scales_wall_up_to_5:
  assumes "depth > 0" and "height / depth \<le> 5"
    and "fst (calculate_force_coefficient self height depth) = Inr c"
  shows "fst (calculate_force_coefficient_freestanding self height depth width) = c * 1.1"
  using assms
  by (auto simp add: calculate_force_coefficient_def py_div_def Let_def
        calculate_force_coefficient_freestanding_def split: if_splits)

lemma scaled_clamped_value_exceeds: "0 < x \<Longrightarrow> (1.1::real) < 1.1 * (1.1 + 0.1243 * x)"
  by simp

lemma wall_cf_above_5:
  assumes "depth > 0" and "height / depth > 5"
  shows "calculate_force_coefficient self height depth
           = (Inr (1.1 + 0.1243 * ln 5), append_warning self (HdOver5Wall (height / depth)))"
  using assms by (simp add: calculate_force_coefficient_def py_div_def Let_def)

lemma wall_cf_up_to_5:
  assumes "depth > 0" and "height / depth \<le> 5"
  shows "\<exists>c. calculate_force_coefficient self height depth = (Inr c, self)"
  using assms by (simp add: calculate_force_coefficient_def py_div_def Let_def)

lemma freestanding_above_5:
  assumes "depth > 0" and "height / depth > 5"
  shows "calculate_force_coefficient_freestanding self height depth width
           = (1.0 * 1.1, append_warning self (HdOver5Freestanding (height / depth)))"
proof -
  define r where "r = height / depth"
  with assms have "r > 5" by simp
  then show ?thesis
    unfolding calculate_force_coefficient_freestanding_def Let_def r_def [symmetric]
    using assms(1) by simp
qed

lemma freestanding_state_up_to_5:
  assumes "depth > 0" and "height / depth \<le> 5"
  shows "snd (calculate_force_coefficient_freestanding self height depth width) = self"
  using assms by (simp add: calculate_force_coefficient_freestanding_def Let_def)

text \<open>
  Claim C2 as stated (the free-standing force coefficient is 1.1 times the wall-mounted one
  in every \<open>h/d\<close> branch, the clamped branch \<open>h/d > 5\<close> included) fails at \<open>height = 2\<close>,
  \<open>depth = 0.3\<close> (\<open>h/d = 6.67\<close>, the sign of the repository's own post-mounted example):
  the free-standing function warns and returns \<open>1.0 * 1.1 = 1.1\<close>, the wall-mounted function
  warns, clamps \<open>h/d\<close> to 5 and returns \<open>1.1 + 0.1243 ln 5\<close> (about 1.30), and 1.1 times the
  latter (about 1.43) is not what the free-standing function returns.
\<close>

theorem C2_counterexample_freestanding_above_5_is_not_scaled_wall:
  "calculate_force_coefficient_freestanding \<lparr>warnings = []\<rparr> 2 0.3 3
     = (1.1, \<lparr>warnings = [HdOver5Freestanding (2 / 0.3)]\<rparr>)
   \<and> calculate_force_coefficient \<lparr>warnings = []\<rparr> 2 0.3
     = (Inr (1.1 + 0.1243 * ln 5), \<lparr>warnings = [HdOver5Wall (2 / 0.3)]\<rparr>)
   \<and> (1.1::real) < 1.1 * (1.1 + 0.1243 * ln 5)
   \<and> fst (calculate_force_coefficient_freestanding \<lparr>warnings = []\<rparr> 2 0.3 3)
       \<noteq> 1.1 * projr (fst (calculate_force_coefficient \<lparr>warnings = []\<rparr> 2 0.3))"
proof -
  have a: "calculate_force_coefficient_freestanding \<lparr>warnings = []\<rparr> 2 0.3 3
     = (1.1, \<lparr>warnings = [HdOver5Freestanding (2 / 0.3)]\<rparr>)"
    by (simp add: Let_def append_warning_def calculate_force_coefficient_freestanding_def)
  have b: "calculate_force_coefficient \<lparr>warnings = []\<rparr> 2 0.3
     = (Inr (1.1 + 0.1243 * ln 5), \<lparr>warnings = [HdOver5Wall (2 / 0.3)]\<rparr>)"
    by (simp add: calculate_force_coefficient_def py_div_def Let_def append_warning_def)
  have c: "(1.1::real) < 1.1 * (1.1 + 0.1243 * ln 5)"
    by (rule scaled_clamped_value_exceeds) simp
  have "fst (calculate_force_coefficient_freestanding \<lparr>warnings = []\<rparr> 2 0.3 3)
       \<noteq> 1.1 * projr (fst (calculate_force_coefficient \<lparr>warnings = []\<rparr> 2 0.3))"
    unfolding a b using c by simp
  with a b c show ?thesis by blast
qed

text \<open>
  Claim C2, amended: for every \<open>height > 0\<close> and \<open>depth > 0\<close> the wall-mounted function returns
  a coefficient \<open>c\<close>. When \<open>h/d \<le> 5\<close>, the free-standing function returns \<open>c * 1.1\<close> and neither
  function appends a warning. When \<open>h/d > 5\<close>, each function appends its own warning, the
  wall-mounted one clamps \<open>h/d\<close> to 5 and returns \<open>c = 1.1 + 0.1243 ln 5\<close>, and the free-standing
  one returns the constant \<open>1.0 * 1.1\<close>, which is less than \<open>c * 1.1\<close>.
\<close>

theorem C2_freestanding_scales_wall_only_up_to_5:
  assumes "height > 0" and "depth > 0"
  shows "\<exists>c. calculate_force_coefficient self height depth
               = (Inr c, if height / depth > 5
                         then append_warning self (HdOver5Wall (height / depth)) else self)
           \<and> calculate_force_coefficient_freestanding self height depth width
               = (if height / depth \<le> 5 then (c * 1.1, self)
                  else (1.0 * 1.1,
                        append_warning self (HdOver5Freestanding (height / depth))))
           \<and> (height / depth > 5 \<longrightarrow> c = 1.1 + 0.1243 * ln 5 \<and> 1.0 * 1.1 < c * 1.1)"
proof (cases "height / depth \<le> 5")
  case True
  from wall_cf_up_to_5 [OF assms(2) True, of self]
  obtain c where c: "calculate_force_coefficient self height depth = (Inr c, self)" by blast
  then have "fst (calculate_force_coefficient self height depth) = Inr c" by simp
  from freestanding_scales_wall_up_to_5 [OF assms(2) True this, of width]
       freestanding_state_up_to_5 [OF assms(2) True, of self width]
  have "calculate_force_coefficient_freestanding self height depth width = (c * 1.1, self)"
    by (simp add: prod_eq_iff)
  with c True show ?thesis by simp
next
  case False
  then have gt: "height / depth > 5" by simp
  have "(1.1::real) < 1.1 * (1.1 + 0.1243 * ln 5)"
    by (rule scaled_clamped_value_exceeds) simp
  then have "1.0 * 1.1 < (1.1 + 0.1243 * ln 5) * (1.1::real)" by (simp add: mult.commute)
  with wall_cf_above_5 [OF assms(2) gt, of self]
       freestanding_above_5 [OF assms(2) gt, of self width] gt
  show ?thesis by simp
qed

theorem C2_witness:
  "(0::real) < 1 \<and> (0::real) < 2 \<and> (0::real) < 0.3 \<and> (1::real) / 1 \<le> 5 \<and> (2::real) / 0.3 > 5
   \<and> calculate_force_coefficient \<lparr>warnings = []\<rparr> 1 1 = (Inr 0.935, \<lparr>warnings = []\<rparr>)
   \<and> calculate_force_coefficient_freestanding \<lparr>warnings = []\<rparr> 1 1 3
       = (0.935 * 1.1, \<lparr>warnings = []\<rparr>)
   \<and> calculate_force_coefficient \<lparr>warnings = []\<rparr> 2 0.3
       = (Inr (1.1 + 0.1243 * ln 5), \<lparr>warnings = [HdOver5Wall (2 / 0.3)]\<rparr>)
   \<and> calculate_force_coefficient_freestanding \<lparr>warnings = []\<rparr> 2 0.3 3
       = (1.1, \<lparr>warnings = [HdOver5Freestanding (2 / 0.3)]\<rparr>)
   \<and> (1.1::real) < (1.1 + 0.1243 * ln 5) * 1.1"
proof -
  have w1: "calculate_force_coefficient \<lparr>warnings = []\<rparr> 1 1 = (Inr 0.935, \<lparr>warnings = []\<rparr>)"
    by (simp add: calculate_force_coefficient_def py_div_def Let_def)
  from C2_freestanding_scales_wall_only_up_to_5 [of 1 1 "\<lparr>warnings = []\<rparr>" 3]
  obtain c where c1: "calculate_force_coefficient \<lparr>warnings = []\<rparr> 1 1 = (Inr c, \<lparr>warnings = []\<rparr>)"
    and c2: "calculate_force_coefficient_freestanding \<lparr>warnings = []\<rparr> 1 1 3
               = (c * 1.1, \<lparr>warnings = []\<rparr>)"
    by auto
  from c1 w1 have "c = 0.935" by simp
  with c2 have f1: "calculate_force_coefficient_freestanding \<lparr>warnings = []\<rparr> 1 1 3
       = (0.935 * 1.1, \<lparr>warnings = []\<rparr>)"
    by simp
  from C2_freestanding_scales_wall_only_up_to_5 [of 2 "0.3" "\<lparr>warnings = []\<rparr>" 3]
  have f2: "calculate_force_coefficient \<lparr>warnings = []\<rparr> 2 0.3
       = (Inr (1.1 + 0.1243 * ln 5), \<lparr>warnings = [HdOver5Wall (2 / 0.3)]\<rparr>)
   \<and> calculate_force_coefficient_freestanding \<lparr>warnings = []\<rparr> 2 0.3 3
       = (1.1, \<lparr>warnings = [HdOver5Freestanding (2 / 0.3)]\<rparr>)
   \<and> (1.1::real) < (1.1 + 0.1243 * ln 5) * 1.1"
    by (auto simp add: append_warning_def)
  from w1 f1 f2 show ?thesis by simp
qed

text \<open>
  Claim C4 (with \<open>depth = 0\<close> both force-coefficient functions take \<open>h/d\<close> as a large
  sentinel and return a result instead of raising a division by zero).
  The code: the free-standing function does so (sentinel 999, result 1.1, with the
  \<open>h/d > 5\<close> warning); the wall-mounted function divides \<open>height\<close> by \<open>depth\<close> unguarded
  and raises \<open>ZeroDivisionError\<close>, for every height.
\<close>

theorem C4_depth_zero_wall_raises_freestanding_returns:
  "calculate_force_coefficient self height 0 = (Inl ZeroDivisionError, self)
   \<and> calculate_force_coefficient_freestanding self height 0 width
       = (1.1, append_warning self (HdOver5Freestanding 999))"
  by (simp add: calculate_force_coefficient_def py_div_def
        calculate_force_coefficient_freestanding_def)

subsection \<open>Section modulus of solid posts\<close>

text \<open>
  Claim C3 as stated (the section modulus of a solid square post of side \<open>b\<close> is exactly
  4/3 of that of a solid circular post of diameter \<open>b\<close>) fails: at \<open>b = 200\<close> the code
  gives \<open>200^3 / 6\<close> for the square and \<open>pi * 200^3 / 32\<close> for the circle, and their ratio
  is not 4/3.
\<close>

theorem C3_counterexample_square_is_not_four_thirds_of_circle:
  "\<not> isl (calculate_post_stresses 0 0 200 0 24 ''square'' ''timber'') \<and>
   \<not> isl (calculate_post_stresses 0 0 200 0 24 ''circular'' ''timber'') \<and>
   pc_W_el (projr (calculate_post_stresses 0 0 200 0 24 ''square'' ''timber''))
     \<noteq> 4 / 3 * pc_W_el (projr (calculate_post_stresses 0 0 200 0 24 ''circular'' ''timber''))"
  using pi_less_4
  by (simp add: calculate_post_stresses_def Let_def)

text \<open>
  Claim C3, amended: for a solid (timber) post, both calls return a result, and the
  section modulus computed for the square of side \<open>b\<close> is \<open>16 / (3 pi)\<close> (about 1.70) times
  the one computed for the circle of diameter \<open>b\<close>, whatever the moment, the force, the
  wall thickness and the strength passed along.
\<close>

theorem C3_square_modulus_is_16_over_3pi_of_circle:
  "\<not> isl (calculate_post_stresses M F b t f_y ''square'' ''timber'') \<and>
   \<not> isl (calculate_post_stresses M' F' b t' f_y' ''circular'' ''timber'') \<and>
   pc_W_el (projr (calculate_post_stresses M F b t f_y ''square'' ''timber''))
     = 16 / (3 * pi)
       * pc_W_el (projr (calculate_post_stresses M' F' b t' f_y' ''circular'' ''timber''))"
  by (simp add: calculate_post_stresses_def Let_def)

subsection \<open>Utilization checks\<close>

lemma anchor_status:
  assumes "calculate_anchor_utilization V M N n p NRk VRk g = Inr a"
  shows "ac_tension_status a = (if ac_eta_tension a \<le> 1.0 then ''PASS'' else ''FAIL'') \<and>
         ac_shear_status a = (if ac_eta_shear a \<le> 1.0 then ''PASS'' else ''FAIL'') \<and>
         ac_combined_status a = (if ac_eta_combined a \<le> 1.0 then ''PASS'' else ''FAIL'')"
  using assms unfolding calculate_anchor_utilization_def Let_def
  by (elim bind_InrE) (auto split del: if_split)

lemma bracket_status:
  assumes "calculate_bracket_stresses V L b h t fy = Inr c"
  shows "bc_bending_status c = (if bc_eta_bending c \<le> 1.0 then ''PASS'' else ''FAIL'') \<and>
         bc_shear_status c = (if bc_eta_shear c \<le> 1.0 then ''PASS'' else ''FAIL'')"
  using assms unfolding calculate_bracket_stresses_def Let_def
  by (elim bind_InrE) (auto split del: if_split)

lemma deflection_status:
  assumes "calculate_deflection F n L E I = Inr c"
  shows "dc_deflection_status c = (if dc_eta_deflection c \<le> 1.0 then ''PASS'' else ''FAIL'')"
  using assms unfolding calculate_deflection_def Let_def
  by (elim bind_InrE) (auto split del: if_split)

lemma post_status:
  assumes "calculate_post_stresses M F sz t fy st mat = Inr c"
  shows "pc_bending_status c = (if pc_eta_bending c \<le> 1.0 then ''PASS'' else ''FAIL'') \<and>
         pc_shear_status c = (if pc_eta_shear c \<le> 1.0 then ''PASS'' else ''FAIL'')"
  using assms unfolding calculate_post_stresses_def Let_def
  by (elim bind_InrE) (auto split del: if_split simp add: split_beta)

text \<open>
  Claim C7: in every utilization check that reports a ratio \<open>eta\<close> (anchor tension, shear
  and combined; bracket bending and shear; post bending and shear; deflection), the status
  of a returned record is \<open>PASS\<close> when its \<open>eta\<close> is at most 1.0 and \<open>FAIL\<close> otherwise.
\<close>

theorem C7_status_is_pass_iff_eta_at_most_one:
  "(calculate_anchor_utilization V M N n p NRk VRk g = Inr a \<longrightarrow>
      ac_tension_status a = (if ac_eta_tension a \<le> 1.0 then ''PASS'' else ''FAIL'') \<and>
      ac_shear_status a = (if ac_eta_shear a \<le> 1.0 then ''PASS'' else ''FAIL'') \<and>
      ac_combined_status a = (if ac_eta_combined a \<le> 1.0 then ''PASS'' else ''FAIL'')) \<and>
   (calculate_bracket_stresses V' L b h t fy = Inr bc \<longrightarrow>
      bc_bending_status bc = (if bc_eta_bending bc \<le> 1.0 then ''PASS'' else ''FAIL'') \<and>
      bc_shear_status bc = (if bc_eta_shear bc \<le> 1.0 then ''PASS'' else ''FAIL'')) \<and>
   (calculate_post_stresses M' F sz t' fy' st mat = Inr pc \<longrightarrow>
      pc_bending_status pc = (if pc_eta_bending pc \<le> 1.0 then ''PASS'' else ''FAIL'') \<and>
      pc_shear_status pc = (if pc_eta_shear pc \<le> 1.0 then ''PASS'' else ''FAIL'')) \<and>
   (calculate_deflection F' n' L' E I = Inr dc \<longrightarrow>
      dc_deflection_status dc = (if dc_eta_deflection dc \<le> 1.0 then ''PASS'' else ''FAIL''))"
  using anchor_status [of V M N n p NRk VRk g a] bracket_status [of V' L b h t fy bc]
        post_status [of M' F sz t' fy' st mat pc] deflection_status [of F' n' L' E I dc]
  by (simp split del: if_split)

theorem C7_witness:
  "\<exists>a bc pc dc.
     calculate_anchor_utilization 1.9 1.14 0.1 4 0.15 12 8 1.5 = Inr a \<and>
     calculate_bracket_stresses 1.9 0.6 80 60 5 275 = Inr bc \<and>
     calculate_post_stresses 20 6 150 8 275 ''circular'' ''steel'' = Inr pc \<and>
     calculate_deflection 2.5 2 0.6 210000 500000 = Inr dc \<and>
     ac_tension_status a = (if ac_eta_tension a \<le> 1.0 then ''PASS'' else ''FAIL'') \<and>
     ac_shear_status a = (if ac_eta_shear a \<le> 1.0 then ''PASS'' else ''FAIL'') \<and>
     ac_combined_status a = (if ac_eta_combined a \<le> 1.0 then ''PASS'' else ''FAIL'') \<and>
     bc_bending_status bc = (if bc_eta_bending bc \<le> 1.0 then ''PASS'' else ''FAIL'') \<and>
     bc_shear_status bc = (if bc_eta_shear bc \<le> 1.0 then ''PASS'' else ''FAIL'') \<and>
     pc_bending_status pc = (if pc_eta_bending pc \<le> 1.0 then ''PASS'' else ''FAIL'') \<and>
     pc_shear_status pc = (if pc_eta_shear pc \<le> 1.0 then ''PASS'' else ''FAIL'') \<and>
     dc_deflection_status dc = (if dc_eta_deflection dc \<le> 1.0 then ''PASS'' else ''FAIL'')"
proof -
  obtain a where a: "calculate_anchor_utilization 1.9 1.14 0.1 4 0.15 12 8 1.5 = Inr a"
    by (simp add: calculate_anchor_utilization_def np_div_def py_div_def Let_def)
  obtain bc where bc: "calculate_bracket_stresses 1.9 0.6 80 60 5 275 = Inr bc"
    by (simp add: calculate_bracket_stresses_def py_div_def Let_def)
  obtain pc where pc: "calculate_post_stresses 20 6 150 8 275 ''circular'' ''steel'' = Inr pc"
    by (simp add: calculate_post_stresses_def py_div_def Let_def)
  obtain dc where dc: "calculate_deflection 2.5 2 0.6 210000 500000 = Inr dc"
    by (simp add: calculate_deflection_def np_div_def Let_def)
  from a bc pc dc
    C7_status_is_pass_iff_eta_at_most_one
      [of "1.9" "1.14" "0.1" 4 "0.15" 12 8 "1.5" a "1.9" "0.6" 80 60 5 275 bc
          20 6 150 8 275 "''circular''" "''steel''" pc "2.5" 2 "0.6" 210000 500000 dc]
  show ?thesis by blast
qed

subsection \<open>Repeated calls\<close>

lemma wall_ignores_old_state:
  "calculate_wind_loading pf s i = calculate_wind_loading pf \<lparr>warnings = []\<rparr> i"
  unfolding calculate_wind_loading_def reset_warnings_eq ..

lemma post_ignores_old_state:
  "post_calculate_wind_loading pf s i = post_calculate_wind_loading pf \<lparr>warnings = []\<rparr> i"
  unfolding post_calculate_wind_loading_def reset_warnings_eq ..

lemma proj_ignores_old_state:
  "proj_calculate_wind_loading s i = proj_calculate_wind_loading \<lparr>warnings = []\<rparr> i"
  unfolding proj_calculate_wind_loading_def reset_warnings_eq ..

text \<open>
  Claim C9: on each of the three engines, a second call of \<open>calculate_wind_loading\<close> on
  the same instance (that is, started in the state the first call left) with the same
  input yields the same outcome as the first call, result record and warnings list
  included (and an error where the first call raised one), and leaves the same state.
\<close>

theorem C9_second_call_equals_first:
  "calculate_wind_loading pf (snd (calculate_wind_loading pf s winp)) winp
     = calculate_wind_loading pf s winp
   \<and> post_calculate_wind_loading pf (snd (post_calculate_wind_loading pf s pinp)) pinp
     = post_calculate_wind_loading pf s pinp
   \<and> proj_calculate_wind_loading (snd (proj_calculate_wind_loading s jinp)) jinp
     = proj_calculate_wind_loading s jinp"
  using wall_ignores_old_state [of pf s winp]
        wall_ignores_old_state [of pf "snd (calculate_wind_loading pf s winp)" winp]
        post_ignores_old_state [of pf s pinp]
        post_ignores_old_state [of pf "snd (post_calculate_wind_loading pf s pinp)" pinp]
        proj_ignores_old_state [of s jinp]
        proj_ignores_old_state [of "snd (proj_calculate_wind_loading s jinp)" jinp]
  by simp

subsection \<open>The wall-mounted pipeline\<close>

text \<open>The wall-mounted force coefficient: its value does not depend on the warnings logged
  so far, it is positive, and the only warning it appends is the one for \<open>h/d > 5\<close>.\<close>

lemma force_coefficient_any_state:
  "calculate_force_coefficient s h d = (Inr c, s') \<Longrightarrow>
   fst (calculate_force_coefficient \<lparr>warnings = []\<rparr> h d) = Inr c"
  unfolding calculate_force_coefficient_def py_div_def Let_def
  by (cases "d = 0") (simp_all split del: if_split)

lemma force_coefficient_state:
  "calculate_force_coefficient s h d = (Inr c, s') \<Longrightarrow>
   d \<noteq> 0 \<and> warnings s' = warnings s @ (if h / d > 5 then [HdOver5Wall (h / d)] else [])"
  unfolding calculate_force_coefficient_def py_div_def Let_def append_warning_def
  by (cases "d = 0"; cases "5 < h / d") auto

lemma ln_ge_minus_3: assumes "(1/4::real) \<le> r" shows "- 3 \<le> ln r"
proof -
  have "ln (1/4::real) \<le> ln r" using assms by (intro ln_mono) auto
  moreover have "ln (1/4::real) = - ln 4" by (simp add: ln_div)
  moreover have "ln (4::real) \<le> 4 - 1" by (rule ln_le_minus_one) simp
  ultimately show ?thesis by linarith
qed

lemma wall_cf_formula_pos:
  fixes r :: real
  shows "0 < (if 0.25 \<le> r \<and> r \<le> 1 then 0.935 + 0.1839 * ln r
              else if 1 < r \<and> r \<le> 5 then (0.8125 + 0.0375 * r) * (1.1 + 0.1243 * ln r)
              else if r < 0.25 then 0.68 else 1.0)"
proof (cases "0.25 \<le> r \<and> r \<le> 1")
  case True
  then have "- 3 \<le> ln r" by (intro ln_ge_minus_3) simp
  with True show ?thesis by simp
next
  case False
  show ?thesis
  proof (cases "1 < r \<and> r \<le> 5")
    case True
    then have "0 < ln r" by simp
    then have "0 < 1.1 + 0.1243 * ln r" by (simp add: add_pos_pos)
    moreover have "0 < 0.8125 + 0.0375 * r" using True by simp
    ultimately have "0 < (0.8125 + 0.0375 * r) * (1.1 + 0.1243 * ln r)"
      by (rule mult_pos_pos[rotated])
    with True False show ?thesis by simp
  next
    case F2: False
    with False show ?thesis by auto
  qed
qed

lemma force_coefficient_pos:
  assumes "calculate_force_coefficient s h d = (Inr c, s')"
  shows "0 < c"
proof -
  have d: "d \<noteq> 0" using assms by (auto simp: calculate_force_coefficient_def py_div_def)
  have "0 < projr (fst (calculate_force_coefficient s h d))"
    unfolding calculate_force_coefficient_def py_div_def Let_def
    using d wall_cf_formula_pos [of "if h / d > 5 then 5.0 else h / d"]
    by (simp split del: if_split)
  with assms show ?thesis by simp
qed

text \<open>The exposure, town-correction, size and dynamic factors are positive.\<close>

lemma exposure_factor_pos: "0 < fst (calculate_exposure_factor h disp dts terr)"
proof -
  define z where "z = max (h - disp) 2.0"
  define cA where "cA = (if z \<le> 10 then 2.5 else 2.5 + 0.20 * ln (z / 10))"
  define cB where "cB = (if z \<le> 10 then 2.1 else 2.1 + 0.22 * ln (z / 10))"
  define cC where "cC = (if z \<le> 10 then 2.5 else 2.5 + 0.28 * ln (z / 10))"
  have l: "10 < z \<Longrightarrow> 0 < ln (z / 10)" by simp
  have A: "0 < cA" using l by (auto simp: cA_def intro: add_pos_pos)
  have B: "0 < cB" using l by (auto simp: cB_def intro: add_pos_pos)
  have C: "0 < cC" using l by (auto simp: cC_def intro: add_pos_pos)
  have mix: "0 < cA + f * (cB - cA)" if "0 \<le> f" "f \<le> 1" for f
  proof -
    have "cA + f * (cB - cA) = (1 - f) * cA + f * cB" by (simp add: algebra_simps)
    moreover have "0 < (1 - f) * cA + f * cB"
    proof (cases "f = 0")
      case True then show ?thesis using A by simp
    next
      case False
      then have "0 < f * cB" using that B by simp
      moreover have "0 \<le> (1 - f) * cA" using that A by simp
      ultimately show ?thesis by linarith
    qed
    ultimately show ?thesis by simp
  qed
  have eq: "fst (calculate_exposure_factor h disp dts terr) =
      (if terr = ''sea'' \<or> dts \<le> 0.1 then cA
       else if terr = ''town'' then cC
       else if dts < 100 then cA + min (dts / 100) 1.0 * (cB - cA) else cB)"
    unfolding calculate_exposure_factor_def Let_def z_def[symmetric]
    by (simp add: cA_def cB_def cC_def)
  show ?thesis
  proof (cases "terr = ''sea'' \<or> dts \<le> 0.1")
    case True then show ?thesis using eq A by simp
  next
    case False
    then have "0 \<le> min (dts / 100) 1.0" by simp
    moreover have "min (dts / 100) 1.0 \<le> 1" by simp
    ultimately have "0 < cA + min (dts / 100) 1.0 * (cB - cA)" by (rule mix)
    then show ?thesis using eq False B C by (simp split del: if_split) auto
  qed
qed

lemma town_correction_ge_1: "0 < dit \<Longrightarrow> 1 \<le> calculate_town_correction dit h"
  by (simp add: calculate_town_correction_def)

lemma size_factor_branch_pos:
  assumes "0 < lo" "lo \<le> hi"
  shows "0 < size_factor_branch lo hi bph z"
proof -
  have l200: "0 < ln (200 / 6 :: real)" by simp
  have l60: "0 < ln (300 / 5 :: real)" by simp
  define c300 where "c300 = lo + (hi - lo) * ln (z / 6) / ln (200 / 6)"
  have c300: "lo \<le> c300" if "6 < z"
  proof -
    have "0 < ln (z / 6)" using that by simp
    then have "0 \<le> (hi - lo) * ln (z / 6) / ln (200 / 6)" using assms l200 by simp
    then show ?thesis by (simp add: c300_def)
  qed
  have interp: "0 < 1 + (c - 1) * ln (bph / 5) / ln (300 / 5)" if "lo \<le> c" "5 < bph" "bph < 300" for c
  proof -
    define t where "t = ln (bph / 5) / ln (300 / 5 :: real)"
    have "0 < ln (bph / 5)" using that by simp
    then have t0: "0 < t" using l60 by (simp add: t_def)
    have "ln (bph / 5) < ln (300 / 5 :: real)" using that by (intro ln_less_cancel_iff[THEN iffD2]) auto
    then have t1: "t < 1" using l60 by (simp add: t_def)
    have "0 < 1 + (c - 1) * t"
    proof (cases "1 \<le> c")
      case True
      then have "0 \<le> (c - 1) * t" using t0 by simp
      then show ?thesis by linarith
    next
      case False
      then have "(c - 1) * t \<ge> (c - 1) * 1" using t1 by (intro mult_left_mono_neg) auto
      then have "c - 1 \<le> (c - 1) * t" by simp
      then show ?thesis using that assms by linarith
    qed
    then show ?thesis by (simp add: t_def)
  qed
  show ?thesis
  proof (cases "bph \<le> 5")
    case True then show ?thesis by (simp add: size_factor_branch_def)
  next
    case n5: False
    show ?thesis
    proof (cases "bph \<ge> 300")
      case True
      have "size_factor_branch lo hi bph z =
              (if z \<le> 6 then lo else if z \<ge> 200 then hi else c300)"
        using n5 True by (simp add: size_factor_branch_def c300_def)
      moreover have "0 < (if z \<le> 6 then lo else if z \<ge> 200 then hi else c300)"
        using assms c300 by (auto intro: less_le_trans)
      ultimately show ?thesis by simp
    next
      case False
      have "0 < 1 + ((if z \<le> 6 then lo else c300) - 1) * ln (bph / 5) / ln (300 / 5)"
        using n5 False c300 by (intro interp) auto
      moreover have "size_factor_branch lo hi bph z =
          1 + ((if z \<le> 6 then lo else c300) - 1) * ln (bph / 5) / ln (300 / 5)"
        using n5 False by (simp add: size_factor_branch_def c300_def Let_def)
      ultimately show ?thesis by simp
    qed
  qed
qed

lemma size_factor_pos: "0 < calculate_size_factor w h z zone"
  unfolding calculate_size_factor_def Let_def
  by (auto intro!: size_factor_branch_pos)

lemma dynamic_factor_ge_1:
  assumes "calculate_dynamic_factor h w = Inr c"
  shows "1 \<le> c"
proof (cases "h \<le> 15")
  case True
  with assms show ?thesis by (simp add: calculate_dynamic_factor_def)
next
  case False
  then have w: "w \<noteq> 0" using assms by (auto simp: calculate_dynamic_factor_def py_div_def)
  define x where "x = h / w"
  have eq: "calculate_dynamic_factor h w =
          (if x \<le> 0.25 then Inr 1.02 else if x \<ge> 10 then Inr 1.24
           else case interpolate_table table_0_08 x of Some c_d \<Rightarrow> Inr c_d | None \<Rightarrow> Inr 1.1)"
    using False w by (simp add: calculate_dynamic_factor_def py_div_def table_0_08_def x_def)
  show ?thesis using assms unfolding eq
    by (auto simp add: table_0_08_def split: if_splits) argo+
qed

text \<open>What a call of the wall-mounted engine that returns a result has computed.\<close>


lemma sum_pair_bind_InrE:
  assumes "(case x of Inl e \<Rightarrow> (Inl e, s0) | Inr v \<Rightarrow> g v) = (Inr r, s')"
  obtains v where "x = Inr v" and "g v = (Inr r, s')"
  using assms by (cases x) auto

lemma pair_bind_InrE:
  assumes "(case p of (Inl e, s) \<Rightarrow> (Inl e, s) | (Inr v, s) \<Rightarrow> g v s) = (Inr r, s')"
  obtains v s where "p = (Inr v, s)" and "g v s = (Inr r, s')"
  using assms by (cases p; cases "fst p") auto

lemma force_coefficient_fst_append:
  "fst (calculate_force_coefficient (append_warning s w) h d)
     = fst (calculate_force_coefficient \<lparr>warnings = []\<rparr> h d)"
  unfolding calculate_force_coefficient_def py_div_def Let_def
  by (cases "d = 0") (simp_all split del: if_split)

lemma wall_result_conj:
  assumes "calculate_wind_loading pf s i = (Inr r, s')"
  shows "calculate_dynamic_factor (in_building_height i) (in_sign_width i) = Inr (r_c_d r) \<and>
    fst (calculate_force_coefficient \<lparr>warnings = []\<rparr> (in_sign_height i) (in_sign_depth i))
           = Inr (r_c_f r) \<and>
    r_v_map r =
           fst (case in_v_map i of
              Some v \<Rightarrow> if v \<noteq> 0 then (v, \<lparr>warnings = []\<rparr>)
                        else lookup_wind_speed \<lparr>warnings = []\<rparr>
                                    (case in_postcode i of Some p \<Rightarrow> p | None \<Rightarrow> [])
            | None \<Rightarrow> lookup_wind_speed \<lparr>warnings = []\<rparr>
                              (case in_postcode i of Some p \<Rightarrow> p | None \<Rightarrow> [])) \<and>
    r_c_alt r = calculate_altitude_factor (in_site_altitude i) (in_building_height i) \<and>
    r_distance_to_shore r =
           parse_distance pf (case in_distance_to_shore i of Some d \<Rightarrow> d | None \<Rightarrow> DNum 100) \<and>
    r_c_e r =
           fst (calculate_exposure_factor (in_building_height i) 0 (r_distance_to_shore r)
                  (case in_terrain_type i of Some t \<Rightarrow> t | None \<Rightarrow> ''country'')) \<and>
    r_zone r =
           snd (calculate_exposure_factor (in_building_height i) 0 (r_distance_to_shore r)
                  (case in_terrain_type i of Some t \<Rightarrow> t | None \<Rightarrow> ''country'')) \<and>
    r_c_e_T r =
           (if (case in_terrain_type i of Some t \<Rightarrow> t | None \<Rightarrow> ''country'') = ''town''
               \<and> (case in_distance_into_town i of Some d \<Rightarrow> d | None \<Rightarrow> 0) > 0
            then calculate_town_correction
                   (case in_distance_into_town i of Some d \<Rightarrow> d | None \<Rightarrow> 0)
                   (in_building_height i)
            else 1.0) \<and>
    r_q_p r = calculate_peak_velocity_pressure (r_v_map r) (r_c_alt r) 1 (r_c_e r) (r_c_e_T r) \<and>
    r_c_s r = calculate_size_factor (in_sign_width i) (in_sign_height i)
                     (in_building_height i) (r_zone r) \<and>
    r_A_ref r = in_sign_width i * in_sign_height i \<and>
    r_force_N r = r_q_p r * r_c_s r * r_c_d r * r_c_f r * r_A_ref r \<and>
    r_force_kN r = r_force_N r / 1000 \<and>
    r_moment_kNm r = r_force_N r * (in_building_height i - in_sign_height i / 2) / 1000 \<and>
    r_warnings r = warnings s' \<and>
    r_c_dir r = 1.0"
  using assms unfolding calculate_wind_loading_def Let_def split_beta reset_warnings_eq
  apply (elim sum_pair_bind_InrE pair_bind_InrE)
  apply (clarsimp simp add: calculate_wind_force_def force_coefficient_fst_append split del: if_split)
  done

lemmas wall_result_fields =
  wall_result_conj [THEN conjunct1]
  wall_result_conj [THEN conjunct2, THEN conjunct1]
  wall_result_conj [THEN conjunct2, THEN conjunct2, THEN conjunct1]
  wall_result_conj [THEN conjunct2, THEN conjunct2, THEN conjunct2, THEN conjunct1]
  wall_result_conj [THEN conjunct2, THEN conjunct2, THEN conjunct2, THEN conjunct2, THEN conjunct1]
  wall_result_conj [THEN conjunct2, THEN conjunct2, THEN conjunct2, THEN conjunct2, THEN conjunct2, THEN conjunct1]
  wall_result_conj [THEN conjunct2, THEN conjunct2, THEN conjunct2, THEN conjunct2, THEN conjunct2, THEN conjunct2, THEN conjunct1]
  wall_result_conj [THEN conjunct2, THEN conjunct2, THEN conjunct2, THEN conjunct2, THEN conjunct2, THEN conjunct2, THEN conjunct2, THEN conjunct1]
  wall_result_conj [THEN conjunct2, THEN conjunct2, THEN conjunct2, THEN conjunct2, THEN conjunct2, THEN conjunct2, THEN conjunct2, THEN conjunct2, THEN conjunct1]
  wall_result_conj [THEN conjunct2, THEN conjunct2, THEN conjunct2, THEN conjunct2, THEN conjunct2, THEN conjunct2, THEN conjunct2, THEN conjunct2, THEN conjunct2, THEN conjunct1]
  wall_result_conj [THEN conjunct2, THEN conjunct2, THEN conjunct2, THEN conjunct2, THEN conjunct2, THEN conjunct2, THEN conjunct2, THEN conjunct2, THEN conjunct2, THEN conjunct2, THEN conjunct1]
  wall_result_conj [THEN conjunct2, THEN conjunct2, THEN conjunct2, THEN conjunct2, THEN conjunct2, THEN conjunct2, THEN conjunct2, THEN conjunct2, THEN conjunct2, THEN conjunct2, THEN conjunct2, THEN conjunct1]
  wall_result_conj [THEN conjunct2, THEN conjunct2, THEN conjunct2, THEN conjunct2, THEN conjunct2, THEN conjunct2, THEN conjunct2, THEN conjunct2, THEN conjunct2, THEN conjunct2, THEN conjunct2, THEN conjunct2, THEN conjunct1]
  wall_result_conj [THEN conjunct2, THEN conjunct2, THEN conjunct2, THEN conjunct2, THEN conjunct2, THEN conjunct2, THEN conjunct2, THEN conjunct2, THEN conjunct2, THEN conjunct2, THEN conjunct2, THEN conjunct2, THEN conjunct2, THEN conjunct1]
  wall_result_conj [THEN conjunct2, THEN conjunct2, THEN conjunct2, THEN conjunct2, THEN conjunct2, THEN conjunct2, THEN conjunct2, THEN conjunct2, THEN conjunct2, THEN conjunct2, THEN conjunct2, THEN conjunct2, THEN conjunct2, THEN conjunct2, THEN conjunct1]
  wall_result_conj [THEN conjunct2, THEN conjunct2, THEN conjunct2, THEN conjunct2, THEN conjunct2, THEN conjunct2, THEN conjunct2, THEN conjunct2, THEN conjunct2, THEN conjunct2, THEN conjunct2, THEN conjunct2, THEN conjunct2, THEN conjunct2, THEN conjunct2]

text \<open>The wall-mounted engine raises only on a zero divisor: a zero width above 15 m, or a
  zero depth.\<close>

lemma force_coefficient_returns:
  "d \<noteq> 0 \<Longrightarrow> \<not> isl (fst (calculate_force_coefficient s h d))"
  by (simp add: calculate_force_coefficient_def py_div_def Let_def)

lemma dynamic_factor_returns:
  "h \<le> 15 \<or> w \<noteq> 0 \<Longrightarrow> \<not> isl (calculate_dynamic_factor h w)"
  by (auto simp add: calculate_dynamic_factor_def py_div_def split: option.splits)

lemma wall_returns:
  assumes "in_building_height i \<le> 15 \<or> in_sign_width i \<noteq> 0" and "in_sign_depth i \<noteq> 0"
  shows "\<exists>r s'. calculate_wind_loading pf s i = (Inr r, s')"
proof -
  obtain c_d where cd: "calculate_dynamic_factor (in_building_height i) (in_sign_width i) = Inr c_d"
    using dynamic_factor_returns [OF assms(1)] by (metis sum.collapse(2))
  have "\<exists>c. fst (calculate_force_coefficient S (in_sign_height i) (in_sign_depth i)) = Inr c" for S
    using force_coefficient_returns [OF assms(2), of S] by (metis sum.collapse(2))
  then obtain c_f where cf: "fst (calculate_force_coefficient S (in_sign_height i) (in_sign_depth i)) = Inr (c_f S)" for S
    by metis
  show ?thesis
    unfolding calculate_wind_loading_def Let_def split_beta
    by (simp add: cd cf split del: if_split)
qed

lemma peak_velocity_pressure_nonneg:
  "0 \<le> c_e \<Longrightarrow> 0 \<le> c_e_T \<Longrightarrow> 0 \<le> calculate_peak_velocity_pressure v c_alt c_dir c_e c_e_T"
  by (simp add: calculate_peak_velocity_pressure_def Let_def)

lemma wall_results_nonneg:
  assumes "calculate_wind_loading pf s i = (Inr r, s')"
  shows "0 \<le> r_q_p r" and "0 < r_c_s r" and "1 \<le> r_c_d r" and "0 < r_c_f r"
proof -
  note f = wall_result_fields [OF assms]
  have "0 < r_c_e r" unfolding f(6) by (rule exposure_factor_pos)
  moreover have "0 < r_c_e_T r" unfolding f(8) using town_correction_ge_1
    by (auto simp add: less_le_trans [OF zero_less_one])
  ultimately show "0 \<le> r_q_p r"
    unfolding f(9) by (intro peak_velocity_pressure_nonneg) simp_all
  show "0 < r_c_s r" unfolding f(10) by (rule size_factor_pos)
  show "1 \<le> r_c_d r" using f(1) by (rule dynamic_factor_ge_1)
  obtain s2 where "calculate_force_coefficient \<lparr>warnings = []\<rparr> (in_sign_height i) (in_sign_depth i)
                     = (Inr (r_c_f r), s2)"
    using f(2) by (metis prod.collapse)
  then show "0 < r_c_f r" by (rule force_coefficient_pos)
qed


text \<open>
  Claim C8: a wall-mounted calculation with positive width, height, depth and building
  height and non-negative altitude returns a result, in which the force (in N) is
  \<open>q_p * c_s * c_d * c_f * A_ref\<close> with \<open>A_ref = sign_width * sign_height\<close>, the moment (in
  kNm) is the force times \<open>building_height - sign_height / 2\<close> divided by 1000, and the
  force is not negative.
\<close>

theorem C8_wall_force_formula:
  assumes "0 < in_sign_width i" and "0 < in_sign_height i" and "0 < in_sign_depth i"
    and "0 < in_building_height i" and "0 \<le> in_site_altitude i"
  shows "\<exists>r s'. calculate_wind_loading pf s i = (Inr r, s') \<and>
           r_A_ref r = in_sign_width i * in_sign_height i \<and>
           r_force_N r = r_q_p r * r_c_s r * r_c_d r * r_c_f r * r_A_ref r \<and>
           r_force_kN r = r_force_N r / 1000 \<and>
           r_moment_kNm r = r_force_N r * (in_building_height i - in_sign_height i / 2) / 1000 \<and>
           0 \<le> r_force_N r \<and> 0 \<le> r_force_kN r"
proof -
  obtain r s' where run: "calculate_wind_loading pf s i = (Inr r, s')"
    using wall_returns [of i pf s] assms by auto
  note f = wall_result_fields [OF run]
  note p = wall_results_nonneg [OF run]
  have A: "0 \<le> r_A_ref r" unfolding f(11) using assms by simp
  have "0 \<le> r_q_p r * r_c_s r" using p by simp
  then have "0 \<le> r_q_p r * r_c_s r * r_c_d r" using p by simp
  then have "0 \<le> r_q_p r * r_c_s r * r_c_d r * r_c_f r" using p by simp
  then have "0 \<le> r_q_p r * r_c_s r * r_c_d r * r_c_f r * r_A_ref r" using A by simp
  then have F: "0 \<le> r_force_N r" unfolding f(12) .
  then have "0 \<le> r_force_kN r" unfolding f(13) by simp
  with run f(11,12,13,14) F show ?thesis by blast
qed

theorem C8_witness:
  "(0::real) < 20 \<and> (0::real) < 27 \<and> (0::real) < 29 \<and> (0::real) < 27 \<and> (0::real) \<le> 105 \<and>
   (\<exists>r s'. calculate_wind_loading (\<lambda>_. None) \<lparr>warnings = []\<rparr> sheffield_inputs = (Inr r, s') \<and>
           r_A_ref r = 540 \<and>
           r_force_N r = r_q_p r * r_c_s r * r_c_d r * r_c_f r * r_A_ref r \<and>
           r_force_kN r = r_force_N r / 1000 \<and>
           r_moment_kNm r = r_force_N r * (27 - 27 / 2) / 1000 \<and>
           0 \<le> r_force_N r \<and> 0 \<le> r_force_kN r)"
  using C8_wall_force_formula [of sheffield_inputs "\<lambda>_. None" "\<lparr>warnings = []\<rparr>"]
  by (simp add: sheffield_inputs_def)

subsection \<open>The post-mounted pipeline\<close>

text \<open>What a call of the post-mounted engine that returns a result has computed.\<close>

lemma freestanding_fst_any_state:
  "fst (calculate_force_coefficient_freestanding (snd x) h d b)
     = fst (calculate_force_coefficient_freestanding \<lparr>warnings = []\<rparr> h d b)"
  by (simp add: calculate_force_coefficient_freestanding_def Let_def)

lemma post_result_conj:
  assumes "post_calculate_wind_loading pf s inputs = (Inr r, s')"
  shows "\<exists>base F.
     fst (calculate_wind_loading pf \<lparr>warnings = []\<rparr>
            (wind_inputs_of inputs (pin_sign_base_height inputs + pin_sign_height inputs / 2)))
       = Inr base \<and>
     fst (post_wind_force pf
            (snd (calculate_force_coefficient_freestanding
                    (snd (calculate_wind_loading pf \<lparr>warnings = []\<rparr>
                            (wind_inputs_of inputs
                               (pin_sign_base_height inputs + pin_sign_height inputs / 2))))
                    (pin_sign_height inputs) (pin_sign_depth inputs) (pin_sign_width inputs)))
            inputs
            (case pin_post_height inputs of Some p \<Rightarrow> p
             | None \<Rightarrow> pin_sign_base_height inputs + pin_sign_height inputs))
       = Inr F \<and>
     s' = snd (post_wind_force pf
            (snd (calculate_force_coefficient_freestanding
                    (snd (calculate_wind_loading pf \<lparr>warnings = []\<rparr>
                            (wind_inputs_of inputs
                               (pin_sign_base_height inputs + pin_sign_height inputs / 2))))
                    (pin_sign_height inputs) (pin_sign_depth inputs) (pin_sign_width inputs)))
            inputs
            (case pin_post_height inputs of Some p \<Rightarrow> p
             | None \<Rightarrow> pin_sign_base_height inputs + pin_sign_height inputs)) \<and>
     pr_F_w_post r = F \<and>
     r_q_p (pr_base r) = r_q_p base \<and>
     r_c_s (pr_base r) = r_c_s base \<and>
     r_c_d (pr_base r) = r_c_d base \<and>
     r_c_f (pr_base r) =
       fst (calculate_force_coefficient_freestanding \<lparr>warnings = []\<rparr>
              (pin_sign_height inputs) (pin_sign_depth inputs) (pin_sign_width inputs)) \<and>
     r_A_ref (pr_base r) = pin_sign_width inputs * pin_sign_height inputs \<and>
     pr_F_w_sign r =
       r_q_p (pr_base r) * r_c_s (pr_base r) * r_c_d (pr_base r) * r_c_f (pr_base r)
         * r_A_ref (pr_base r) / 1000 \<and>
     r_force_kN (pr_base r) = pr_F_w_sign r + pr_F_w_post r \<and>
     r_warnings (pr_base r) = warnings s'"
  using assms unfolding post_calculate_wind_loading_def Let_def split_beta reset_warnings_eq
  apply (elim sum_pair_bind_InrE)
  apply (clarsimp simp add: freestanding_fst_any_state split del: if_split)
  done

lemma post_wind_force_with_post:
  assumes "pin_post_diameter inputs = Some dia" and "0 < dia"
    and "fst (post_wind_force pf S inputs ph) = Inr F"
  shows "\<exists>pr s2. calculate_wind_loading pf S (wind_inputs_of inputs (ph / 2)) = (Inr pr, s2) \<and>
           F = r_q_p pr * (if pin_post_section_type inputs = Some ''square'' then 2.0 else 0.7)
                 * (dia / 1000 * ph) / 1000"
proof -
  obtain x s2 where run: "calculate_wind_loading pf S (wind_inputs_of inputs (ph / 2)) = (x, s2)"
    by (cases "calculate_wind_loading pf S (wind_inputs_of inputs (ph / 2))")
  have sq: "((case pin_post_section_type inputs of Some t \<Rightarrow> t | None \<Rightarrow> ''circular'') = ''square'')
          = (pin_post_section_type inputs = Some ''square'')"
    by (cases "pin_post_section_type inputs") auto
  show ?thesis
  proof (cases x)
    case (Inl e)
    with assms run show ?thesis by (simp add: post_wind_force_def Let_def)
  next
    case (Inr pr)
    with assms run show ?thesis by (simp add: post_wind_force_def Let_def sq)
  qed
qed

lemma wall_q_p_of_wind_inputs:
  assumes "calculate_wind_loading pf S (wind_inputs_of inputs z) = (Inr pr, s2)"
  shows "r_q_p pr =
     calculate_peak_velocity_pressure
       (if pin_v_map inputs \<noteq> 0 then pin_v_map inputs else 22.0)
       (calculate_altitude_factor (pin_site_altitude inputs) z) 1.0
       (fst (calculate_exposure_factor z 0.0
               (parse_distance pf (pin_distance_to_shore inputs)) (pin_terrain_type inputs)))
       (if pin_terrain_type inputs = ''town''
           \<and> (case pin_distance_into_town inputs of Some d \<Rightarrow> d | None \<Rightarrow> 0) > 0
        then calculate_town_correction
               (case pin_distance_into_town inputs of Some d \<Rightarrow> d | None \<Rightarrow> 0) z
        else 1.0)"
proof -
  note f = wall_result_fields [OF assms]
  have v: "r_v_map pr = (if pin_v_map inputs \<noteq> 0 then pin_v_map inputs else 22.0)"
    unfolding f(3) by (simp add: wind_inputs_of_def lookup_wind_speed_def)
  have a: "r_c_alt pr = calculate_altitude_factor (pin_site_altitude inputs) z"
    unfolding f(4) by (simp add: wind_inputs_of_def)
  have e: "r_c_e pr = fst (calculate_exposure_factor z 0.0
               (parse_distance pf (pin_distance_to_shore inputs)) (pin_terrain_type inputs))"
    unfolding f(6) f(5) by (simp add: wind_inputs_of_def)
  have t: "r_c_e_T pr = (if pin_terrain_type inputs = ''town''
           \<and> (case pin_distance_into_town inputs of Some d \<Rightarrow> d | None \<Rightarrow> 0) > 0
        then calculate_town_correction
               (case pin_distance_into_town inputs of Some d \<Rightarrow> d | None \<Rightarrow> 0) z
        else 1.0)"
    unfolding f(8) by (simp add: wind_inputs_of_def)
  show ?thesis unfolding f(9) v a e t by simp
qed


text \<open>The engine on the post-mounted example of the repository: it returns a result, and
  the warnings in it are those of the second run of the wall-mounted pipeline.\<close>

lemma post_example_eval:
  "(case post_calculate_wind_loading pf s post_example_inputs of
      (Inr r, s') \<Rightarrow>
         r_warnings (pr_base r) = [NonDirectional, OrographyIgnored, HdOver5Wall (2 / 0.3)]
    | (Inl e, s') \<Rightarrow> False)"
  by (simp add: post_calculate_wind_loading_def post_example_inputs_def wind_inputs_of_def
        calculate_wind_loading_def parse_distance_def calculate_altitude_factor_def
        calculate_exposure_factor_def calculate_peak_velocity_pressure_def
        calculate_size_factor_def size_factor_branch_def calculate_dynamic_factor_def
        calculate_force_coefficient_def py_div_def calculate_wind_force_def
        calculate_force_coefficient_freestanding_def post_wind_force_def
        calculate_post_stresses_def calculate_foundation_requirements_def
        append_warning_def Let_def)

lemma post_example_returns:
  obtains r s' where "post_calculate_wind_loading pf s post_example_inputs = (Inr r, s')"
    and "r_warnings (pr_base r) = [NonDirectional, OrographyIgnored, HdOver5Wall (2 / 0.3)]"
proof -
  obtain x s' where run: "post_calculate_wind_loading pf s post_example_inputs = (x, s')"
    by (cases "post_calculate_wind_loading pf s post_example_inputs")
  show ?thesis
  proof (cases x)
    case (Inl e)
    with run post_example_eval [of pf s] show ?thesis by simp
  next
    case (Inr r)
    with run post_example_eval [of pf s] that show ?thesis by simp
  qed
qed


text \<open>
  Claim C10: when the post-mounted engine returns a result for an input with a positive
  post diameter \<open>dia\<close> (in mm), the force on the post is
  \<open>q_p_post * c_f_post * (dia / 1000) * post_height / 1000\<close> kN, where \<open>q_p_post\<close> is the peak
  velocity pressure of the wall-mounted pipeline at half the post height and \<open>c_f_post\<close> is
  2.0 for a square section and 0.7 otherwise; neither a size factor nor a dynamic factor
  enters it, whereas the force on the sign panel is \<open>q_p * c_s * c_d * c_f * A_ref / 1000\<close>.
\<close>

theorem C10_post_self_force_has_no_size_or_dynamic_factor:
  assumes "post_calculate_wind_loading pf s inputs = (Inr r, s')"
    and "pin_post_diameter inputs = Some dia" and "0 < dia"
  shows "let post_height = (case pin_post_height inputs of Some p \<Rightarrow> p
                            | None \<Rightarrow> pin_sign_base_height inputs + pin_sign_height inputs);
             z_post_avg = post_height / 2;
             v_map = (if pin_v_map inputs \<noteq> 0 then pin_v_map inputs else 22.0);
             terrain_type = pin_terrain_type inputs;
             distance_into_town =
               (case pin_distance_into_town inputs of Some d \<Rightarrow> d | None \<Rightarrow> 0);
             q_p_post =
               calculate_peak_velocity_pressure v_map
                 (calculate_altitude_factor (pin_site_altitude inputs) z_post_avg) 1.0
                 (fst (calculate_exposure_factor z_post_avg 0.0
                         (parse_distance pf (pin_distance_to_shore inputs)) terrain_type))
                 (if terrain_type = ''town'' \<and> distance_into_town > 0
                  then calculate_town_correction distance_into_town z_post_avg else 1.0);
             c_f_post = (if pin_post_section_type inputs = Some ''square'' then 2.0 else 0.7)
         in pr_F_w_post r = q_p_post * c_f_post * (dia / 1000) * post_height / 1000
          \<and> pr_F_w_sign r =
              r_q_p (pr_base r) * r_c_s (pr_base r) * r_c_d (pr_base r) * r_c_f (pr_base r)
                * r_A_ref (pr_base r) / 1000"
proof -
  from post_result_conj [OF assms(1)] obtain base F where
    F: "fst (post_wind_force pf
            (snd (calculate_force_coefficient_freestanding
                    (snd (calculate_wind_loading pf \<lparr>warnings = []\<rparr>
                            (wind_inputs_of inputs
                               (pin_sign_base_height inputs + pin_sign_height inputs / 2))))
                    (pin_sign_height inputs) (pin_sign_depth inputs) (pin_sign_width inputs)))
            inputs
            (case pin_post_height inputs of Some p \<Rightarrow> p
             | None \<Rightarrow> pin_sign_base_height inputs + pin_sign_height inputs))
       = Inr F"
    and post: "pr_F_w_post r = F"
    and sign: "pr_F_w_sign r =
       r_q_p (pr_base r) * r_c_s (pr_base r) * r_c_d (pr_base r) * r_c_f (pr_base r)
         * r_A_ref (pr_base r) / 1000"
    by blast
  from post_wind_force_with_post [OF assms(2,3) F] obtain pr s2 where
    run: "calculate_wind_loading pf
            (snd (calculate_force_coefficient_freestanding
                    (snd (calculate_wind_loading pf \<lparr>warnings = []\<rparr>
                            (wind_inputs_of inputs
                               (pin_sign_base_height inputs + pin_sign_height inputs / 2))))
                    (pin_sign_height inputs) (pin_sign_depth inputs) (pin_sign_width inputs)))
            (wind_inputs_of inputs
               ((case pin_post_height inputs of Some p \<Rightarrow> p
                 | None \<Rightarrow> pin_sign_base_height inputs + pin_sign_height inputs) / 2))
          = (Inr pr, s2)"
    and Fv: "F = r_q_p pr * (if pin_post_section_type inputs = Some ''square'' then 2.0 else 0.7)
                 * (dia / 1000 *
                    (case pin_post_height inputs of Some p \<Rightarrow> p
                     | None \<Rightarrow> pin_sign_base_height inputs + pin_sign_height inputs)) / 1000"
    by blast
  note q = wall_q_p_of_wind_inputs [OF run]
  show ?thesis
    unfolding Let_def post Fv q using sign by (simp split del: if_split)
qed

theorem C10_witness:
  "\<exists>r s'. post_calculate_wind_loading (\<lambda>_. None) \<lparr>warnings = []\<rparr> post_example_inputs = (Inr r, s')
     \<and> pin_post_diameter post_example_inputs = Some 150 \<and> (0::real) < 150
     \<and> pr_F_w_post r = 0.613 * (22.5 * 1.05) ^ 2 * 2.42 * 0.7 * (150 / 1000) * 4.5 / 1000
     \<and> pr_F_w_sign r =
              r_q_p (pr_base r) * r_c_s (pr_base r) * r_c_d (pr_base r) * r_c_f (pr_base r)
                * r_A_ref (pr_base r) / 1000"
proof -
  obtain r s' where
    run: "post_calculate_wind_loading (\<lambda>_. None) \<lparr>warnings = []\<rparr> post_example_inputs = (Inr r, s')"
    by (rule post_example_returns)
  have dia: "pin_post_diameter post_example_inputs = Some 150"
    by (simp add: post_example_inputs_def)
  from C10_post_self_force_has_no_size_or_dynamic_factor [OF run dia]
  have "pr_F_w_post r = 0.613 * (22.5 * 1.05) ^ 2 * 2.42 * 0.7 * (150 / 1000) * 4.5 / 1000
     \<and> pr_F_w_sign r =
              r_q_p (pr_base r) * r_c_s (pr_base r) * r_c_d (pr_base r) * r_c_f (pr_base r)
                * r_A_ref (pr_base r) / 1000"
    by (simp add: post_example_inputs_def Let_def parse_distance_def calculate_altitude_factor_def
          calculate_exposure_factor_def calculate_peak_velocity_pressure_def)
  with run dia show ?thesis by simp
qed


text \<open>
  Claim C6 (the warning log is reset once at the start of a call and then only grows, so
  every warning appended during the call is in the returned list, the free-standing
  \<open>h/d > 5\<close> warning of the post-mounted engine included).
  The code on the repository's post-mounted example (\<open>h/d = 6.67\<close>, post diameter 150 mm):
  the free-standing force coefficient appends its warning to the log left by the first run
  of the wall-mounted pipeline, but the second run of that pipeline, made for the force on
  the post, rebinds \<open>self.warnings\<close> to a new empty list; the returned list holds the three
  warnings of the second run only and the free-standing warning is not in it.
\<close>

theorem C6_post_engine_loses_freestanding_warning:
  "(case post_calculate_wind_loading (\<lambda>_. None) \<lparr>warnings = []\<rparr> post_example_inputs of
      (Inr r, s') \<Rightarrow>
         r_warnings (pr_base r) = [NonDirectional, OrographyIgnored, HdOver5Wall (2 / 0.3)]
         \<and> HdOver5Freestanding (2 / 0.3) \<notin> set (r_warnings (pr_base r))
    | (Inl e, s') \<Rightarrow> False)
   \<and> snd (calculate_force_coefficient_freestanding
            \<lparr>warnings = [NonDirectional, OrographyIgnored, HdOver5Wall (2 / 0.3)]\<rparr> 2 0.3 3)
       = \<lparr>warnings = [NonDirectional, OrographyIgnored, HdOver5Wall (2 / 0.3),
                       HdOver5Freestanding (2 / 0.3)]\<rparr>"
proof -
  obtain r s' where
    run: "post_calculate_wind_loading (\<lambda>_. None) \<lparr>warnings = []\<rparr> post_example_inputs = (Inr r, s')"
    and w: "r_warnings (pr_base r) = [NonDirectional, OrographyIgnored, HdOver5Wall (2 / 0.3)]"
    by (rule post_example_returns)
  have "snd (calculate_force_coefficient_freestanding
            \<lparr>warnings = [NonDirectional, OrographyIgnored, HdOver5Wall (2 / 0.3)]\<rparr> 2 0.3 3)
       = \<lparr>warnings = [NonDirectional, OrographyIgnored, HdOver5Wall (2 / 0.3),
                       HdOver5Freestanding (2 / 0.3)]\<rparr>"
    by (simp add: calculate_force_coefficient_freestanding_def Let_def append_warning_def)
  with run w show ?thesis by simp
qed

subsection \<open>Rational bounds on logarithms and fifth roots\<close>

text \<open>The golden scenarios evaluate \<open>np.log\<close> and \<open>** 0.2\<close> at concrete arguments. A partial
  sum of the exponential series is a lower bound of \<open>exp\<close> (of an even number of terms for a
  negative argument), which bounds a logarithm from both sides by rationals.\<close>

lemma exp_ge_taylor:
  fixes x :: real
  assumes "even n \<or> 0 \<le> x"
  shows "(\<Sum>m<n. x ^ m / fact m) \<le> exp x"
proof -
  obtain t where "exp x = (\<Sum>m<n. x ^ m / fact m) + (exp t / fact n) * x ^ n"
    using Maclaurin_exp_le [of x n] by blast
  moreover have "0 \<le> x ^ n" using assms by (auto simp: zero_le_even_power)
  then have "0 \<le> (exp t / fact n) * x ^ n" by simp
  ultimately show ?thesis by linarith
qed

lemma ln_le_by_taylor:
  fixes y x S :: real
  assumes "0 < y" and "0 \<le> x" and "0 \<le> S"
    and "S \<le> (\<Sum>m<n. x ^ m / fact m)" and "y \<le> S ^ k"
  shows "ln y \<le> real k * x"
proof -
  have "S \<le> exp x" using assms(4) exp_ge_taylor [of n x] assms(2) by linarith
  then have "S ^ k \<le> exp x ^ k" using assms(3) by (intro power_mono)
  also have "exp x ^ k = exp (real k * x)" by (rule exp_of_nat_mult [symmetric])
  finally have "y \<le> exp (real k * x)" using assms(5) by linarith
  then have "ln y \<le> ln (exp (real k * x))" using assms(1) by (intro ln_mono) auto
  then show ?thesis by simp
qed

lemma ln_ge_by_taylor:
  fixes y x S :: real
  assumes "0 < y" and "even n" and "0 \<le> S"
    and "S \<le> (\<Sum>m<n. (- x) ^ m / fact m)" and "1 / y \<le> S ^ k"
  shows "real k * x \<le> ln y"
proof -
  have "S \<le> exp (- x)" using assms(4) exp_ge_taylor [of n "- x"] assms(2) by linarith
  then have "S ^ k \<le> exp (- x) ^ k" using assms(3) by (intro power_mono)
  also have "exp (- x) ^ k = exp (real k * (- x))" by (rule exp_of_nat_mult [symmetric])
  also have "real k * (- x) = - (real k * x)" by (rule mult_minus_right)
  finally have "1 / y \<le> exp (- (real k * x))" using assms(5) by linarith
  then have "1 / y \<le> 1 / exp (real k * x)" by (simp only: exp_minus inverse_eq_divide)
  then have "exp (real k * x) \<le> y" using assms(1) by (simp add: field_simps del: exp_le_cancel_iff)
  then show ?thesis using assms(1) by (simp add: ln_ge_iff)
qed

text \<open>A fifth root lies between two rationals whose fifth powers enclose the argument.\<close>

lemma fifth_power_powr:
  fixes l :: real
  assumes "0 < l"
  shows "(l ^ 5) powr (1 / 5) = l"
proof -
  have "l powr (real 5) = l ^ 5" using assms by (rule powr_realpow)
  then have "(l ^ 5) powr (1 / 5) = (l powr real 5) powr (1 / 5)" by (simp only:)
  also have "\<dots> = l powr (real 5 * (1 / 5))" by (rule powr_powr)
  also have "real 5 * (1 / 5) = (1::real)" by simp
  also have "l powr 1 = l" using assms by simp
  finally show ?thesis .
qed

lemma powr_fifth_ge:
  fixes l x :: real
  assumes "0 < l" and "l ^ 5 \<le> x"
  shows "l \<le> x powr (1 / 5)"
proof -
  have "0 \<le> l ^ 5" using assms(1) by simp
  then have "(l ^ 5) powr (1 / 5) \<le> x powr (1 / 5)"
    using assms(2) by (intro powr_mono2) simp_all
  then show ?thesis using fifth_power_powr [OF assms(1)] by simp
qed

lemma powr_fifth_le:
  fixes u x :: real
  assumes "0 < u" and "0 \<le> x" and "x \<le> u ^ 5"
  shows "x powr (1 / 5) \<le> u"
proof -
  have "x powr (1 / 5) \<le> (u ^ 5) powr (1 / 5)"
    using assms(2,3) by (intro powr_mono2) simp_all
  then show ?thesis using fifth_power_powr [OF assms(1)] by simp
qed

lemma fifth_root_50_81:
  "0.908 \<le> (50 / 81 :: real) powr (1 / 5)" "(50 / 81 :: real) powr (1 / 5) \<le> 0.909"
proof -
  have "(0.908 :: real) ^ 5 \<le> 50 / 81" by (simp add: power_divide)
  then show "0.908 \<le> (50 / 81 :: real) powr (1 / 5)"
    by (intro powr_fifth_ge) simp_all
  have "(50 / 81 :: real) \<le> 0.909 ^ 5" by (simp add: power_divide)
  then show "(50 / 81 :: real) powr (1 / 5) \<le> 0.909"
    by (intro powr_fifth_le) simp_all
qed

text \<open>The logarithms of the two golden scenarios.\<close>

lemma ln_27_10: "138 / 139 \<le> ln (27 / 10 :: real)" "ln (27 / 10 :: real) \<le> 149 / 150"
proof -
  have "real 1 * (138 / 139) \<le> ln (27 / 10 :: real)"
  proof (rule ln_ge_by_taylor [where n = 8 and S = "741029 / 2000000"])
    show "741029 / 2000000 \<le> (\<Sum>m<8. (- (138 / 139 :: real)) ^ m / fact m)"
      by (simp add: eval_nat_numeral)
    show "1 / (27 / 10 :: real) \<le> (741029 / 2000000) ^ 1" by (simp add: power_divide)
  qed simp_all
  then show "138 / 139 \<le> ln (27 / 10 :: real)" by simp
  have "ln (27 / 10 :: real) \<le> real 1 * (149 / 150)"
  proof (rule ln_le_by_taylor [where n = 8 and S = "13500969 / 5000000"])
    show "13500969 / 5000000 \<le> (\<Sum>m<8. (149 / 150 :: real) ^ m / fact m)"
      by (simp add: eval_nat_numeral)
    show "(27 / 10 :: real) \<le> (13500969 / 5000000) ^ 1" by (simp add: power_divide)
  qed simp_all
  then show "ln (27 / 10 :: real) \<le> 149 / 150" by simp
qed

lemma ln_9_2: "188 / 125 \<le> ln (9 / 2 :: real)" "ln (9 / 2 :: real) \<le> 158 / 105"
proof -
  have "real 2 * (94 / 125) \<le> ln (9 / 2 :: real)"
  proof (rule ln_ge_by_taylor [where n = 8 and S = "1178551 / 2500000"])
    show "1178551 / 2500000 \<le> (\<Sum>m<8. (- (94 / 125 :: real)) ^ m / fact m)"
      by (simp add: eval_nat_numeral)
    show "1 / (9 / 2 :: real) \<le> (1178551 / 2500000) ^ 2" by (simp add: power_divide)
  qed simp_all
  then show "188 / 125 \<le> ln (9 / 2 :: real)" by simp
  have "ln (9 / 2 :: real) \<le> real 2 * (79 / 105)"
  proof (rule ln_le_by_taylor [where n = 8 and S = "21220437 / 10000000"])
    show "21220437 / 10000000 \<le> (\<Sum>m<8. (79 / 105 :: real) ^ m / fact m)"
      by (simp add: eval_nat_numeral)
    show "(9 / 2 :: real) \<le> (21220437 / 10000000) ^ 2" by (simp add: power_divide)
  qed simp_all
  then show "ln (9 / 2 :: real) \<le> 158 / 105" by simp
qed

lemma ln_100_3: "284 / 81 \<le> ln (100 / 3 :: real)" "ln (100 / 3 :: real) \<le> 228 / 65"
proof -
  have "real 4 * (71 / 81) \<le> ln (100 / 3 :: real)"
  proof (rule ln_ge_by_taylor [where n = 8 and S = "4162113 / 10000000"])
    show "4162113 / 10000000 \<le> (\<Sum>m<8. (- (71 / 81 :: real)) ^ m / fact m)"
      by (simp add: eval_nat_numeral)
    show "1 / (100 / 3 :: real) \<le> (4162113 / 10000000) ^ 4" by (simp add: power_divide)
  qed simp_all
  then show "284 / 81 \<le> ln (100 / 3 :: real)" by simp
  have "ln (100 / 3 :: real) \<le> real 4 * (57 / 65)"
  proof (rule ln_le_by_taylor [where n = 8 and S = "24034833 / 10000000"])
    show "24034833 / 10000000 \<le> (\<Sum>m<8. (57 / 65 :: real) ^ m / fact m)"
      by (simp add: eval_nat_numeral)
    show "(100 / 3 :: real) \<le> (24034833 / 10000000) ^ 4" by (simp add: power_divide)
  qed simp_all
  then show "ln (100 / 3 :: real) \<le> 228 / 65" by simp
qed

lemma ln_47_5: "56 / 25 \<le> ln (47 / 5 :: real)" "ln (47 / 5 :: real) \<le> 65 / 29"
proof -
  have "real 2 * (28 / 25) \<le> ln (47 / 5 :: real)"
  proof (rule ln_ge_by_taylor [where n = 8 and S = "815563 / 2500000"])
    show "815563 / 2500000 \<le> (\<Sum>m<8. (- (28 / 25 :: real)) ^ m / fact m)"
      by (simp add: eval_nat_numeral)
    show "1 / (47 / 5 :: real) \<le> (815563 / 2500000) ^ 2" by (simp add: power_divide)
  qed simp_all
  then show "56 / 25 \<le> ln (47 / 5 :: real)" by simp
  have "ln (47 / 5 :: real) \<le> real 2 * (65 / 58)"
  proof (rule ln_le_by_taylor [where n = 8 and S = "15334491 / 5000000"])
    show "15334491 / 5000000 \<le> (\<Sum>m<8. (65 / 58 :: real) ^ m / fact m)"
      by (simp add: eval_nat_numeral)
    show "(47 / 5 :: real) \<le> (15334491 / 5000000) ^ 2" by (simp add: power_divide)
  qed simp_all
  then show "ln (47 / 5 :: real) \<le> 65 / 29" by simp
qed

lemma ln_60: "176 / 43 \<le> ln (60 :: real)" "ln (60 :: real) \<le> 86 / 21"
proof -
  have "real 4 * (44 / 43) \<le> ln (60 :: real)"
  proof (rule ln_ge_by_taylor [where n = 8 and S = "89849 / 250000"])
    show "89849 / 250000 \<le> (\<Sum>m<8. (- (44 / 43 :: real)) ^ m / fact m)"
      by (simp add: eval_nat_numeral)
    show "1 / (60 :: real) \<le> (89849 / 250000) ^ 4" by (simp add: power_divide)
  qed simp_all
  then show "176 / 43 \<le> ln (60 :: real)" by simp
  have "ln (60 :: real) \<le> real 4 * (43 / 42)"
  proof (rule ln_le_by_taylor [where n = 8 and S = "27837457 / 10000000"])
    show "27837457 / 10000000 \<le> (\<Sum>m<8. (43 / 42 :: real) ^ m / fact m)"
      by (simp add: eval_nat_numeral)
    show "(60 :: real) \<le> (27837457 / 10000000) ^ 4" by (simp add: power_divide)
  qed simp_all
  then show "ln (60 :: real) \<le> 86 / 21" by simp
qed

lemma ln_29_27: "16 / 225 \<le> ln (29 / 27 :: real)" "ln (29 / 27 :: real) \<le> 14 / 195"
proof -
  have "real 1 * (16 / 225) \<le> ln (29 / 27 :: real)"
  proof (rule ln_ge_by_taylor [where n = 8 and S = "582099 / 625000"])
    show "582099 / 625000 \<le> (\<Sum>m<8. (- (16 / 225 :: real)) ^ m / fact m)"
      by (simp add: eval_nat_numeral)
    show "1 / (29 / 27 :: real) \<le> (582099 / 625000) ^ 1" by (simp add: power_divide)
  qed simp_all
  then show "16 / 225 \<le> ln (29 / 27 :: real)" by simp
  have "ln (29 / 27 :: real) \<le> real 1 * (14 / 195)"
  proof (rule ln_le_by_taylor [where n = 8 and S = "10744349 / 10000000"])
    show "10744349 / 10000000 \<le> (\<Sum>m<8. (14 / 195 :: real) ^ m / fact m)"
      by (simp add: eval_nat_numeral)
    show "(29 / 27 :: real) \<le> (10744349 / 10000000) ^ 1" by (simp add: power_divide)
  qed simp_all
  then show "ln (29 / 27 :: real) \<le> 14 / 195" by simp
qed

lemma ln_50_3: "588 / 209 \<le> ln (50 / 3 :: real)" "ln (50 / 3 :: real) \<le> 377 / 134"
proof -
  have "real 3 * (196 / 209) \<le> ln (50 / 3 :: real)"
  proof (rule ln_ge_by_taylor [where n = 10 and S = "978721 / 2500000"])
    show "978721 / 2500000 \<le> (\<Sum>m<10. (- (196 / 209 :: real)) ^ m / fact m)"
      by (simp add: eval_nat_numeral)
    show "1 / (50 / 3 :: real) \<le> (978721 / 2500000) ^ 3" by (simp add: power_divide)
  qed simp_all
  then show "588 / 209 \<le> ln (50 / 3 :: real)" by simp
  have "ln (50 / 3 :: real) \<le> real 3 * (377 / 402)"
  proof (rule ln_le_by_taylor [where n = 10 and S = "12771917 / 5000000"])
    show "12771917 / 5000000 \<le> (\<Sum>m<10. (377 / 402 :: real) ^ m / fact m)"
      by (simp add: eval_nat_numeral)
    show "(50 / 3 :: real) \<le> (12771917 / 5000000) ^ 3" by (simp add: power_divide)
  qed simp_all
  then show "ln (50 / 3 :: real) \<le> 377 / 134" by simp
qed

subsection \<open>The Sheffield Bioincubator scenario of the wall-mounted engine\<close>

text \<open>The arithmetic of the scenario over the bounds above, then the call itself.\<close>

lemma sheffield_arithmetic:
  fixes p L27 L45 L333 L94 L60 L2927 :: real
  assumes p: "0.908 \<le> p" "p \<le> 0.909"
    and L27: "138 / 139 \<le> L27" "L27 \<le> 149 / 150"
    and L45: "188 / 125 \<le> L45" "L45 \<le> 158 / 105"
    and L333: "284 / 81 \<le> L333" "L333 \<le> 228 / 65"
    and L94: "56 / 25 \<le> L94" "L94 \<le> 65 / 29"
    and L60: "176 / 43 \<le> L60" "L60 \<le> 86 / 21"
    and L2927: "16 / 225 \<le> L2927" "L2927 \<le> 14 / 195"
  defines "c_alt \<equiv> 1 + 0.105 * p"
    and "c_e \<equiv> 2.5 + 0.28 * L27"
    and "c_s \<equiv> 1 + (0.75 + 0.1 * L45 / L333 - 1) * L94 / L60"
    and "c_f \<equiv> 0.935 - 0.1839 * L2927"
  defines "q_p \<equiv> 0.613 * (22.1 * c_alt * 1) ^ 2 * c_e * 1.04"
  shows "\<bar>c_alt - 1.10\<bar> < 0.02"
    and "\<bar>c_e * 1.04 - 2.9\<bar> < 0.2"
    and "\<bar>q_p - 1058\<bar> < 1058 * 0.05"
    and "\<bar>c_s - 0.85\<bar> < 0.05"
    and "\<bar>c_f - 0.92\<bar> < 0.05"
    and "\<bar>q_p * c_s * 1.074 * c_f * 540 / 1000 - 460\<bar> < 460 * 0.08"
proof -
  show "\<bar>c_alt - 1.10\<bar> < 0.02" using p by (simp add: c_alt_def abs_less_iff)
  have ce: "(555597 / 200000) \<le> c_e" "c_e \<le> (1389067 / 500000)" using L27 by (simp_all add: c_e_def)
  then show "\<bar>c_e * 1.04 - 2.9\<bar> < 0.2" by (simp add: abs_less_iff)
  define v where "v = 22.1 * c_alt * 1"
  have v: "(12103507 / 500000) \<le> v" "v \<le> (4841867 / 200000)" using p by (simp_all add: v_def c_alt_def)
  define v2 where "v2 = v ^ 2"
  have "(12103507 / 500000) ^ 2 \<le> v ^ 2" using v by (intro power_mono) simp_all
  then have v2lo: "(292989763 / 500000) \<le> v2" unfolding v2_def by (simp add: power_divide)
  have "v ^ 2 \<le> (4841867 / 200000) ^ 2" using v by (intro power_mono) simp_all
  then have v2hi: "v2 \<le> (293045951 / 500000)" unfolding v2_def by (simp add: power_divide)
  define w where "w = v2 * c_e"
  have "(292989763 / 500000) * (555597 / 200000) \<le> v2 * c_e" using v2lo ce by (intro mult_mono) simp_all
  then have wlo: "(1627842333 / 1000000) \<le> w" unfolding w_def by simp
  have "v2 * c_e \<le> (293045951 / 500000) * (1389067 / 500000)" using v2lo v2hi ce by (intro mult_mono) simp_all
  then have whi: "w \<le> (1628241841 / 1000000)" unfolding w_def by simp
  have q_eq: "q_p = 0.613 * 1.04 * w" by (simp add: q_p_def v_def v2_def w_def)
  have q: "(259445511 / 250000) \<le> q_p" "q_p \<le> (1038036739 / 1000000)" using wlo whi unfolding q_eq by simp_all
  then show "\<bar>q_p - 1058\<bar> < 1058 * 0.05" by (simp add: abs_less_iff)
  define t1 where "t1 = L45 / L333"
  define t2 where "t2 = L94 / L60"
  have "188 / 125 / (228 / 65) \<le> L45 / L333" using L45 L333 by (intro frac_le) simp_all
  then have t1lo: "(428771 / 1000000) \<le> t1" unfolding t1_def by simp
  have "L45 / L333 \<le> 158 / 105 / (284 / 81)" using L45 L333 by (intro frac_le) simp_all
  then have t1hi: "t1 \<le> (53647 / 125000)" unfolding t1_def by simp
  have "56 / 25 / (86 / 21) \<le> L94 / L60" using L94 L60 by (intro frac_le) simp_all
  then have t2lo: "(17093 / 31250) \<le> t2" unfolding t2_def by simp
  have "L94 / L60 \<le> 65 / 29 / (176 / 43)" using L94 L60 by (intro frac_le) simp_all
  then have t2hi: "t2 \<le> (54761 / 100000)" unfolding t2_def by simp
  define u where "u = 0.25 - 0.1 * t1"
  have u: "(103541 / 500000) \<le> u" "u \<le> (207123 / 1000000)" using t1lo t1hi by (simp_all add: u_def)
  define ut where "ut = u * t2"
  have "(103541 / 500000) * (17093 / 31250) \<le> u * t2" using u t2lo by (intro mult_mono) simp_all
  then have utlo: "(28317 / 250000) \<le> ut" unfolding ut_def by simp
  have "u * t2 \<le> (207123 / 1000000) * (54761 / 100000)" using u t2hi t2lo by (intro mult_mono) simp_all
  then have uthi: "ut \<le> (113423 / 1000000)" unfolding ut_def by simp
  have "c_s = 1 + (0.75 + 0.1 * t1 - 1) * t2"
    unfolding c_s_def t1_def t2_def by (simp only: times_divide_eq_right)
  also have "\<dots> = 1 - ut" by (simp add: ut_def u_def algebra_simps)
  finally have cs_eq: "c_s = 1 - ut" .
  have cs: "(886577 / 1000000) \<le> c_s" "c_s \<le> (221683 / 250000)" using utlo uthi unfolding cs_eq by simp_all
  then show "\<bar>c_s - 0.85\<bar> < 0.05" by (simp add: abs_less_iff)
  have cf: "(230449 / 250000) \<le> c_f" "c_f \<le> (921923 / 1000000)" using L2927 by (simp_all add: c_f_def)
  then show "\<bar>c_f - 0.92\<bar> < 0.05" by (simp add: abs_less_iff)
  define qc where "qc = q_p * c_s"
  have "(259445511 / 250000) * (886577 / 1000000) \<le> q_p * c_s" using q cs by (intro mult_mono) simp_all
  then have qclo: "(920073691 / 1000000) \<le> qc" unfolding qc_def by simp
  have "q_p * c_s \<le> (1038036739 / 1000000) * (221683 / 250000)" using q cs by (intro mult_mono) simp_all
  then have qchi: "qc \<le> (460230197 / 500000)" unfolding qc_def by simp
  define qcf where "qcf = qc * c_f"
  have "(920073691 / 1000000) * (230449 / 250000) \<le> qc * c_f" using qclo cf by (intro mult_mono) simp_all
  then have lo: "(106015031 / 125000) \<le> qcf" unfolding qcf_def by simp
  have "qc * c_f \<le> (460230197 / 500000) * (921923 / 1000000)" using qchi qclo cf by (intro mult_mono) simp_all
  then have hi: "qcf \<le> (106074201 / 125000)" unfolding qcf_def by simp
  have F_eq: "q_p * c_s * 1.074 * c_f * 540 / 1000 = 1.074 * 0.54 * qcf"
    by (simp add: qcf_def qc_def)
  show "\<bar>q_p * c_s * 1.074 * c_f * 540 / 1000 - 460\<bar> < 460 * 0.08"
    using lo hi unfolding F_eq by (simp add: abs_less_iff)
qed


lemma sheffield_returns:
  obtains r s' where "calculate_wind_loading pf s sheffield_inputs = (Inr r, s')"
  using wall_returns [of sheffield_inputs pf s] by (auto simp add: sheffield_inputs_def)

lemma sheffield_fields:
  assumes "calculate_wind_loading pf s sheffield_inputs = (Inr r, s')"
  shows "r_v_map r = 22.1"
    and "r_c_alt r = 1 + 0.105 * (50 / 81) powr (1 / 5)"
    and "r_c_e r = 2.5 + 0.28 * ln (27 / 10)"
    and "r_c_e_T r = 1.04"
    and "r_c_s r = 1 + (0.75 + 0.1 * ln (9 / 2) / ln (100 / 3) - 1) * ln (47 / 5) / ln 60"
    and "r_c_d r = 1.074"
    and "r_c_f r = 0.935 - 0.1839 * ln (29 / 27)"
    and "r_q_p r = 0.613 * (22.1 * r_c_alt r * 1) ^ 2 * r_c_e r * 1.04"
    and "r_force_kN r = r_q_p r * r_c_s r * 1.074 * r_c_f r * 540 / 1000"
proof -
  note f = wall_result_fields [OF assms]
  show v: "r_v_map r = 22.1" unfolding f(3) by (simp add: sheffield_inputs_def)
  show "r_c_alt r = 1 + 0.105 * (50 / 81) powr (1 / 5)"
    unfolding f(4) by (simp add: sheffield_inputs_def calculate_altitude_factor_def)
  have d: "r_distance_to_shore r = 100" unfolding f(5)
    by (simp add: sheffield_inputs_def parse_distance_def)
  show "r_c_e r = 2.5 + 0.28 * ln (27 / 10)"
    unfolding f(6) d by (simp add: sheffield_inputs_def calculate_exposure_factor_def)
  have z: "r_zone r = ''C''"
    unfolding f(7) d by (simp add: sheffield_inputs_def calculate_exposure_factor_def)
  show t: "r_c_e_T r = 1.04"
    unfolding f(8) by (simp add: sheffield_inputs_def calculate_town_correction_def)
  show "r_c_s r = 1 + (0.75 + 0.1 * ln (9 / 2) / ln (100 / 3) - 1) * ln (47 / 5) / ln 60"
    unfolding f(10) z
    by (simp add: sheffield_inputs_def calculate_size_factor_def size_factor_branch_def)
  have "calculate_dynamic_factor 27 20 = Inr 1.074"
    by (simp add: calculate_dynamic_factor_def py_div_def table_0_08_def)
  with f(1) show cd: "r_c_d r = 1.074"
    by (simp add: sheffield_inputs_def)
  have "ln (27 / 29 :: real) = - ln (29 / 27)" by (simp add: ln_div)
  then have "fst (calculate_force_coefficient \<lparr>warnings = []\<rparr> 27 29)
               = Inr (0.935 - 0.1839 * ln (29 / 27))"
    by (simp add: calculate_force_coefficient_def py_div_def)
  with f(2) show "r_c_f r = 0.935 - 0.1839 * ln (29 / 27)"
    by (simp add: sheffield_inputs_def)
  show "r_q_p r = 0.613 * (22.1 * r_c_alt r * 1) ^ 2 * r_c_e r * 1.04"
    unfolding f(9) v t by (simp add: calculate_peak_velocity_pressure_def)
  have "r_A_ref r = 540" unfolding f(11) by (simp add: sheffield_inputs_def)
  then show "r_force_kN r = r_q_p r * r_c_s r * 1.074 * r_c_f r * 540 / 1000"
    unfolding f(13) f(12) cd by simp
qed

text \<open>
  Claim C1: the wall-mounted engine run on the Sheffield Bioincubator inputs (width 20,
  height 27, depth 29, building height 27, altitude 105, \<open>v_map\<close> 22.1, 100 km to the shore,
  terrain town, 2 km into town) returns a result with \<open>v_map\<close> within 0.1 of 22.1, \<open>c_alt\<close>
  within 0.02 of 1.10, \<open>c_dir = 1.0\<close>, \<open>c_e * c_e_T\<close> within 0.2 of 2.9, \<open>q_p\<close> within 5% of 1058,
  \<open>c_s\<close> within 0.05 of 0.85, \<open>c_d\<close> within 0.05 of 1.03, \<open>c_f\<close> within 0.05 of 0.92 and
  \<open>force_kN\<close> within 8% of 460 (floats modelled as reals).
\<close>

theorem C1_sheffield_golden_scenario:
  "\<exists>r s'. calculate_wind_loading pf s sheffield_inputs = (Inr r, s') \<and>
     \<bar>r_v_map r - 22.1\<bar> < 0.1 \<and>
     \<bar>r_c_alt r - 1.10\<bar> < 0.02 \<and>
     r_c_dir r = 1.0 \<and>
     \<bar>r_c_e r * r_c_e_T r - 2.9\<bar> < 0.2 \<and>
     \<bar>r_q_p r - 1058\<bar> < 1058 * 0.05 \<and>
     \<bar>r_c_s r - 0.85\<bar> < 0.05 \<and>
     \<bar>r_c_d r - 1.03\<bar> < 0.05 \<and>
     \<bar>r_c_f r - 0.92\<bar> < 0.05 \<and>
     \<bar>r_force_kN r - 460\<bar> < 460 * 0.08"
proof -
  obtain r s' where run: "calculate_wind_loading pf s sheffield_inputs = (Inr r, s')"
    by (rule sheffield_returns)
  note sf = sheffield_fields [OF run]
  note a = sheffield_arithmetic [OF fifth_root_50_81 ln_27_10 ln_9_2 ln_100_3 ln_47_5 ln_60 ln_29_27]
  have 1: "\<bar>r_v_map r - 22.1\<bar> < 0.1" unfolding sf(1) by simp
  have 2: "\<bar>r_c_alt r - 1.10\<bar> < 0.02" unfolding sf(2) by (rule a(1))
  have 3: "r_c_dir r = 1.0" by (rule wall_result_fields(16) [OF run])
  have 4: "\<bar>r_c_e r * r_c_e_T r - 2.9\<bar> < 0.2" unfolding sf(3) sf(4) by (rule a(2))
  have 5: "\<bar>r_q_p r - 1058\<bar> < 1058 * 0.05" unfolding sf(8) sf(2) sf(3) by (rule a(3))
  have 6: "\<bar>r_c_s r - 0.85\<bar> < 0.05" unfolding sf(5) by (rule a(4))
  have 7: "\<bar>r_c_d r - 1.03\<bar> < 0.05" unfolding sf(6) by simp
  have 8: "\<bar>r_c_f r - 0.92\<bar> < 0.05" unfolding sf(7) by (rule a(5))
  have 9: "\<bar>r_force_kN r - 460\<bar> < 460 * 0.08"
    unfolding sf(9) sf(8) sf(2) sf(3) sf(5) sf(7) by (rule a(6))
  from run 1 2 3 4 5 6 7 8 9 show ?thesis by blast
qed

subsection \<open>The worked example of the projecting-sign engine\<close>

text \<open>The call on the inputs of \<open>test_projecting_sign\<close>, evaluated up to \<open>ln (50 / 3)\<close>, and
  the arithmetic over the bounds of that logarithm.\<close>

lemma projecting_example_eval:
  "\<exists>r. proj_calculate_wind_loading s projecting_example_inputs = (Inr r, \<lparr>warnings = []\<rparr>) \<and>
     jr_q_p r = 0.5 * 1.25 * (0.22 * ln (50 / 3) * 22.5) ^ 2 * (1 + 7 * (1 / ln (50 / 3))) / 1000 \<and>
     jr_F_w_k r = 2.0 * jr_q_p r * (2.0 * 1.5) \<and>
     jr_F_w_Ed r = 1.5 * jr_F_w_k r \<and>
     ac_eta_combined (jr_anchor_check r)
       = (jr_F_w_Ed r / 2 * 0.6 / (0.15 * (4 / 2)) + 1.35 * 0.15 / 2 / 4) / (12 / 1.5)
         + (jr_F_w_Ed r / 2 / 4) / (8 / 1.5) \<and>
     jr_warnings r = []"
  by (simp add: proj_calculate_wind_loading_def projecting_example_inputs_def TERRAIN_PARAMS_def
        calculate_basic_wind_velocity_def calculate_roughness_factor_def
        calculate_turbulence_intensity_def calculate_peak_pressure_def
        calculate_bracket_forces_def calculate_anchor_utilization_def
        calculate_bracket_stresses_def calculate_deflection_def
        py_div_def np_div_def AIR_DENSITY_def STEEL_E_MODULUS_def GAMMA_G_UNFAV_def
        GAMMA_Q_def Let_def)

lemma projecting_arithmetic:
  fixes L q Fk Fe eta :: real
  assumes "588 / 209 \<le> L" and "L \<le> 377 / 134"
    and q: "q = 0.5 * 1.25 * (0.22 * L * 22.5) ^ 2 * (1 + 7 * (1 / L)) / 1000"
    and Fk: "Fk = 2.0 * q * (2.0 * 1.5)"
    and Fe: "Fe = 1.5 * Fk"
    and eta: "eta = (Fe / 2 * 0.6 / (0.15 * (4 / 2)) + 1.35 * 0.15 / 2 / 4) / (12 / 1.5)
                    + (Fe / 2 / 4) / (8 / 1.5)"
  shows "\<bar>q - 0.4228\<bar> < 0.0001" and "422.8 * 0.05 \<le> \<bar>q - 422.8\<bar>"
    and "\<bar>Fk - 2.537\<bar> < 0.001" and "\<bar>Fe - 3.806\<bar> < 0.001" and "\<bar>eta - 0.568\<bar> < 0.001"
proof -
  have L0: "0 < L" using assms(1) by linarith
  define LL where "LL = L * L"
  have "(588 / 209) * (588 / 209) \<le> L * L" using assms(1) by (intro mult_mono) auto
  then have lo: "345744 / 43681 \<le> LL" unfolding LL_def by simp
  have "L * L \<le> (377 / 134) * (377 / 134)" using assms(2) L0 by (intro mult_mono) auto
  then have hi: "LL \<le> 142129 / 17956" unfolding LL_def by simp
  have "q = 9801 / 640000 * (L * L + 7 * L)"
    unfolding q using L0 by (simp add: field_simps power2_eq_square)
  then have qe: "q = 9801 / 640000 * (LL + 7 * L)" unfolding LL_def .
  have ql: "1057 / 2500 \<le> q" unfolding qe using lo assms(1) by simp
  have qh: "q \<le> 21141 / 50000" unfolding qe using hi assms(2) by simp
  show "\<bar>q - 0.4228\<bar> < 0.0001" using ql qh by (simp add: abs_less_iff)
  show "422.8 * 0.05 \<le> \<bar>q - 422.8\<bar>" using ql qh by simp
  have Fk': "Fk = 6 * q" unfolding Fk by simp
  have Fe': "Fe = 9 * q" unfolding Fe Fk' by simp
  show "\<bar>Fk - 2.537\<bar> < 0.001" unfolding Fk' using ql qh by (simp add: abs_less_iff)
  show "\<bar>Fe - 3.806\<bar> < 0.001" unfolding Fe' using ql qh by (simp add: abs_less_iff)
  have "eta = Fe * (19 / 128) + 81 / 25600" unfolding eta by (simp add: add_divide_distrib)
  then have ee: "eta = 171 / 128 * q + 81 / 25600" unfolding Fe' by simp
  have "5679 / 10000 \<le> eta" "eta \<le> 5681 / 10000" unfolding ee using ql qh by simp_all
  then show "\<bar>eta - 0.568\<bar> < 0.001" unfolding abs_less_iff by simp
qed

text \<open>
  Claim C5 (on the golden inputs the projecting-sign engine returns \<open>q_p\<close> of about 422.8,
  the field being in Pa, \<open>F_w_k\<close> of about 2.537, \<open>F_w_Ed\<close> of about 3.806 and an anchor
  \<open>eta_combined\<close> of about 0.568). The code: the call returns, without warnings, with the
  two forces and the anchor utilization within 0.001 of these values, but the field \<open>q_p\<close>
  holds \<open>q_p_Pa / 1000\<close>, within 0.0001 of 0.4228, which is further from 422.8 than the 5%
  that \<open>test_projecting_sign\<close> allows.
\<close>

theorem C5_projecting_peak_pressure_is_in_kN_per_m2:
  "\<exists>r s'. proj_calculate_wind_loading s projecting_example_inputs = (Inr r, s') \<and>
     jr_warnings r = [] \<and>
     \<bar>jr_q_p r - 0.4228\<bar> < 0.0001 \<and>
     422.8 * 0.05 \<le> \<bar>jr_q_p r - 422.8\<bar> \<and>
     \<bar>jr_F_w_k r - 2.537\<bar> < 0.001 \<and>
     \<bar>jr_F_w_Ed r - 3.806\<bar> < 0.001 \<and>
     \<bar>ac_eta_combined (jr_anchor_check r) - 0.568\<bar> < 0.001"
proof -
  from projecting_example_eval [of s] obtain r where
    run: "proj_calculate_wind_loading s projecting_example_inputs = (Inr r, \<lparr>warnings = []\<rparr>)"
    and q: "jr_q_p r = 0.5 * 1.25 * (0.22 * ln (50 / 3) * 22.5) ^ 2 * (1 + 7 * (1 / ln (50 / 3))) / 1000"
    and Fk: "jr_F_w_k r = 2.0 * jr_q_p r * (2.0 * 1.5)"
    and Fe: "jr_F_w_Ed r = 1.5 * jr_F_w_k r"
    and eta: "ac_eta_combined (jr_anchor_check r)
       = (jr_F_w_Ed r / 2 * 0.6 / (0.15 * (4 / 2)) + 1.35 * 0.15 / 2 / 4) / (12 / 1.5)
         + (jr_F_w_Ed r / 2 / 4) / (8 / 1.5)"
    and w: "jr_warnings r = []"
    by blast
  note a = projecting_arithmetic [OF ln_50_3 q Fk Fe eta]
  from run w a show ?thesis by blast
qed

end
